theory Spec2Isabelle
  imports Main
begin

section \<open>Python values used by \<open>bilibili_api.article\<close>\<close>

text \<open>
  A Python \<open>str\<close> is modelled by the list of bytes of its UTF-8 encoding, so that the
  Chinese labels of the card nodes and \<open>chr(160)\<close> can be written down. A search for a
  non-empty string (\<open>replace\<close>, \<open>split\<close>, \<open>in\<close>, \<open>startswith\<close>) finds the same occurrences in the
  encoding as in the code points, because an encoded character never starts inside another.
  Where Python counts or classifies characters (a slice, \<open>strip\<close>, \<open>int\<close>, \<open>\d\<close>, a bounded
  repetition), the model splits the bytes into characters first (\<open>chars\<close>). The tables of
  white space and of decimal digits are those of CPython 3.11 (Unicode 14.0).
\<close>

datatype error =
    KeyError string
  | TypeError
  | IndexError
  | ValueError
  | AttributeError
  | ApiException
  | ExternalError string

definition nl :: char where "nl = CHR 0x0A"
definition tab :: char where "tab = CHR 0x09"
definition backslash :: char where "backslash = CHR 0x5C"

definition nbsp :: string where
  \<comment> \<open>\<open>chr(160)\<close>, U+00A0, in UTF-8\<close>
  "nbsp = [CHR 0xC2, CHR 0xA0]"

definition starts_with :: "string \<Rightarrow> string \<Rightarrow> bool" where
  \<comment> \<open>\<open>s.startswith(p)\<close>\<close>
  "starts_with p s = (take (length p) s = p)"

fun str_in :: "string \<Rightarrow> string \<Rightarrow> bool" where
  \<comment> \<open>\<open>sub in s\<close> for two strings\<close>
  "str_in sub [] = (sub = [])"
| "str_in sub (c # s) = (starts_with sub (c # s) \<or> str_in sub s)"

function str_replace :: "string \<Rightarrow> string \<Rightarrow> string \<Rightarrow> string" where
  \<comment> \<open>\<open>s.replace(old, new)\<close> for a non-empty \<open>old\<close>: the occurrences are replaced from the left,
      and the text put in is not looked at again. The module never passes an empty \<open>old\<close>.\<close>
  "str_replace old new [] = []"
| "str_replace old new (c # s) =
     (if old \<noteq> [] \<and> starts_with old (c # s)
      then new @ str_replace old new (drop (length old) (c # s))
      else c # str_replace old new s)"
  by pat_completeness auto
termination
  by (relation "measure (\<lambda>(old, new, s). length s)") auto

fun split_on :: "char \<Rightarrow> string \<Rightarrow> string list" where
  \<comment> \<open>\<open>s.split(sep)\<close> for a separator of one character: never an empty list\<close>
  "split_on sep [] = [[]]"
| "split_on sep (c # s) =
     (if c = sep then [] # split_on sep s
      else (case split_on sep s of
              [] \<Rightarrow> [[c]]
            | w # ws \<Rightarrow> (c # w) # ws))"

fun join :: "string \<Rightarrow> string list \<Rightarrow> string" where
  \<comment> \<open>\<open>sep.join(xs)\<close>\<close>
  "join sep [] = []"
| "join sep [x] = x"
| "join sep (x # y # xs) = x @ sep @ join sep (y # xs)"

definition is_cont :: "char \<Rightarrow> bool" where
  \<comment> \<open>a continuation byte of an encoded character, \<open>10xxxxxx\<close>\<close>
  "is_cont b = (let k = (of_char b :: nat) in 128 \<le> k \<and> k < 192)"

fun chars :: "string \<Rightarrow> string list" where
  \<comment> \<open>the characters of a string in order, each as the bytes of its encoding: a byte is
      joined to the bytes after it when they start with a continuation byte\<close>
  "chars [] = []"
| "chars (b # s) =
     (case chars s of
        [] \<Rightarrow> [[b]]
      | c # cs \<Rightarrow> if c \<noteq> [] \<and> is_cont (hd c) then (b # c) # cs else [b] # c # cs)"

definition lead_bits :: "nat \<Rightarrow> nat \<Rightarrow> nat" where
  \<comment> \<open>the bits of the code point in the first byte \<open>k\<close> of a character of \<open>n + 1\<close> bytes\<close>
  "lead_bits n k = (if n = 0 then k else if n = 1 then k - 192 else if n = 2 then k - 224 else k - 240)"

fun code_point :: "string \<Rightarrow> nat" where
  \<comment> \<open>\<open>ord(c)\<close> of one character given by its bytes\<close>
  "code_point [] = 0"
| "code_point (b # bs) =
     foldl (\<lambda>n x. 64 * n + (of_char x - 128)) (lead_bits (length bs) (of_char b)) bs"

definition utf8 :: "nat \<Rightarrow> string" where
  \<comment> \<open>\<open>chr(n)\<close>: the bytes of the character with code point \<open>n\<close>\<close>
  "utf8 n =
     (if n < 0x80 then [char_of n]
      else if n < 0x800 then [char_of (192 + n div 64), char_of (128 + n mod 64)]
      else if n < 0x10000 then
        [char_of (224 + n div 4096), char_of (128 + n div 64 mod 64), char_of (128 + n mod 64)]
      else
        [char_of (240 + n div 262144), char_of (128 + n div 4096 mod 64),
         char_of (128 + n div 64 mod 64), char_of (128 + n mod 64)])"

definition drop_chars :: "nat \<Rightarrow> string \<Rightarrow> string" where
  \<comment> \<open>the slice \<open>s[n:]\<close>\<close>
  "drop_chars n s = concat (drop n (chars s))"

definition space_points :: "nat list" where
  \<comment> \<open>the code points for which \<open>str.isspace\<close> holds; \<open>strip\<close> without argument removes these\<close>
  "space_points =
     [0x20, 0x09, 0x0A, 0x0B, 0x0C, 0x0D, 0x1C, 0x1D, 0x1E, 0x1F, 0x85, 0xA0, 0x1680,
      0x2000, 0x2001, 0x2002, 0x2003, 0x2004, 0x2005, 0x2006, 0x2007, 0x2008, 0x2009, 0x200A,
      0x2028, 0x2029, 0x202F, 0x205F, 0x3000]"

definition is_space :: "string \<Rightarrow> bool" where
  "is_space c = (code_point c \<in> set space_points)"

definition lstrip :: "string \<Rightarrow> string" where
  "lstrip s = concat (dropWhile is_space (chars s))"

definition rstrip :: "string \<Rightarrow> string" where
  "rstrip s = concat (rev (dropWhile is_space (rev (chars s))))"

definition is_digit :: "char \<Rightarrow> bool" where
  \<comment> \<open>the class \<open>[0-9]\<close>\<close>
  "is_digit c = (c \<in> set ''0123456789'')"

definition digit_val :: "char \<Rightarrow> nat" where
  "digit_val c = of_char c - 48"

definition digits_val :: "string \<Rightarrow> nat" where
  "digits_val ds = foldl (\<lambda>acc c. 10 * acc + digit_val c) 0 ds"

definition decimal_zeros :: "nat list" where
  \<comment> \<open>the code points of the digits zero of the category \<open>Nd\<close>; the nine code points after
      each of them are its digits one to nine\<close>
  "decimal_zeros =
     [0x30, 0x660, 0x6F0, 0x7C0, 0x966, 0x9E6, 0xA66, 0xAE6, 0xB66, 0xBE6, 0xC66, 0xCE6, 0xD66,
      0xDE6, 0xE50, 0xED0, 0xF20, 0x1040, 0x1090, 0x17E0, 0x1810, 0x1946, 0x19D0, 0x1A80,
      0x1A90, 0x1B50, 0x1BB0, 0x1C40, 0x1C50, 0xA620, 0xA8D0, 0xA900, 0xA9D0, 0xA9F0, 0xAA50,
      0xABF0, 0xFF10, 0x104A0, 0x10D30, 0x11066, 0x110F0, 0x11136, 0x111D0, 0x112F0, 0x11450,
      0x114D0, 0x11650, 0x116C0, 0x11730, 0x118E0, 0x11950, 0x11C50, 0x11D50, 0x11DA0, 0x16A60,
      0x16AC0, 0x16B50, 0x1D7CE, 0x1D7D8, 0x1D7E2, 0x1D7EC, 0x1D7F6, 0x1E140, 0x1E2F0, 0x1E950,
      0x1FBF0]"

definition decimal :: "string \<Rightarrow> nat option" where
  \<comment> \<open>the value of a character that is a decimal digit (what \<open>\d\<close> matches and \<open>int\<close> reads)\<close>
  "decimal c =
     (let n = code_point c
      in map_option (\<lambda>z. n - z) (find (\<lambda>z. z \<le> n \<and> n < z + 10) decimal_zeros))"

definition int_space :: "string \<Rightarrow> bool" where
  \<comment> \<open>the white space \<open>int\<close> skips around a number: that of \<open>str.isspace\<close> without the four
      separators U+001C to U+001F\<close>
  "int_space c = (is_space c \<and> code_point c \<notin> set [0x1C, 0x1D, 0x1E, 0x1F])"

fun grouped_digits :: "string list \<Rightarrow> bool" where
  \<comment> \<open>decimal digits, with single underscores allowed between two digits\<close>
  "grouped_digits [] = False"
| "grouped_digits [c] = (decimal c \<noteq> None)"
| "grouped_digits (c # d # s) =
     (decimal c \<noteq> None \<and> (if d = ''_'' then grouped_digits s else grouped_digits (d # s)))"

definition max_str_digits :: nat where
  \<comment> \<open>\<open>sys.int_info.default_max_str_digits\<close>\<close>
  "max_str_digits = 4300"

definition py_int :: "string \<Rightarrow> error + int" where
  \<comment> \<open>\<open>int(s)\<close>: white space around, an optional sign, decimal digits of any script; anything
      else, and a number of more than \<open>max_str_digits\<close> digits, raises ValueError\<close>
  "py_int s =
     (let t = rev (dropWhile int_space (rev (dropWhile int_space (chars s))));
          neg = (t \<noteq> [] \<and> hd t = ''-'');
          d = (if t \<noteq> [] \<and> (hd t = ''-'' \<or> hd t = ''+'') then tl t else t);
          ds = filter (\<lambda>c. c \<noteq> ''_'') d
      in if grouped_digits d \<and> length ds \<le> max_str_digits
         then Inr ((if neg then - 1 else 1) *
                   int (foldl (\<lambda>acc c. 10 * acc + (case decimal c of Some v \<Rightarrow> v | None \<Rightarrow> 0)) 0 ds))
         else Inl ValueError)"

function str_of_nat :: "nat \<Rightarrow> string" where
  \<comment> \<open>the decimal digits of a natural number\<close>
  "str_of_nat n =
     (if n < 10 then [char_of (48 + n)]
      else str_of_nat (n div 10) @ [char_of (48 + n mod 10)])"
  by pat_completeness auto
termination
  by (relation "measure (\<lambda>n. n)") auto

definition str_of_int :: "int \<Rightarrow> string" where
  \<comment> \<open>\<open>str(i)\<close>, as an f-string prints an integer\<close>
  "str_of_int i =
     (if i < 0 then CHR ''-'' # str_of_nat (nat (- i)) else str_of_nat (nat i))"

fun seq_map :: "('a \<Rightarrow> error + 'b) \<Rightarrow> 'a list \<Rightarrow> error + 'b list" where
  \<comment> \<open>a \<open>for\<close> loop that converts each item in turn and stops at the first exception\<close>
  "seq_map f [] = Inr []"
| "seq_map f (x # xs) =
     (case f x of
        Inl e \<Rightarrow> Inl e
      | Inr y \<Rightarrow> (case seq_map f xs of Inl e \<Rightarrow> Inl e | Inr ys \<Rightarrow> Inr (y # ys)))"

definition then_do :: "error + 'a \<Rightarrow> ('a \<Rightarrow> error + 'b) \<Rightarrow> error + 'b" where
  \<comment> \<open>sequencing of two statements, the first of which may raise\<close>
  "then_do r f = (case r of Inl e \<Rightarrow> Inl e | Inr x \<Rightarrow> f x)"

section \<open>The markup tree\<close>

text \<open>
  The tree BeautifulSoup hands to \<open>parse\<close>: a child of an element is a \<open>NavigableString\<close> or a
  \<open>Tag\<close>. BeautifulSoup keeps the \<open>class\<close> attribute as a list of class names and every other
  attribute read by the module as one string, so a tag carries its \<open>class\<close> list (if it has
  the attribute) apart from its other attributes.
\<close>

datatype html =
    NavigableString string
  | Tag string "(string \<times> string) list" "string list option" "html list"

fun get_text :: "html \<Rightarrow> string" and get_texts :: "html list \<Rightarrow> string" where
  \<comment> \<open>\<open>e.text\<close>: the strings below \<open>e\<close>, concatenated in document order\<close>
  "get_text (NavigableString s) = s"
| "get_text (Tag n a c cs) = get_texts cs"
| "get_texts [] = []"
| "get_texts (e # es) = get_text e @ get_texts es"

fun find_tag :: "string \<Rightarrow> html list \<Rightarrow> html option" where
  \<comment> \<open>\<open>e.find(name)\<close> over the contents of \<open>e\<close>: the first tag of that name in document order\<close>
  "find_tag nm [] = None"
| "find_tag nm (NavigableString s # es) = find_tag nm es"
| "find_tag nm (Tag n a c cs # es) =
     (if n = nm then Some (Tag n a c cs)
      else (case find_tag nm cs of Some t \<Rightarrow> Some t | None \<Rightarrow> find_tag nm es))"

definition item :: "(string \<times> 'v) list \<Rightarrow> string \<Rightarrow> error + 'v" where
  \<comment> \<open>\<open>d[k]\<close> on a dict: KeyError when the key is missing\<close>
  "item d k = (case map_of d k of None \<Rightarrow> Inl (KeyError k) | Some v \<Rightarrow> Inr v)"

section \<open>The node model\<close>

text \<open>
  One constructor per node class, with the fields the class declares. \<open>ImageNode.url\<close> may be
  \<open>None\<close> (the parser stores the result of \<open>attrs.get\<close>), and \<open>ImageNode.alt\<close> and
  \<open>AnchorNode.text\<close> hold the first content item of an element, which is a string or a tag.
\<close>

datatype node =
    ParagraphNode "node list" string
  | HeadingNode "node list"
  | BlockquoteNode "node list"
  | ItalicNode "node list"
  | BoldNode "node list"
  | DelNode "node list"
  | UnderlineNode "node list"
  | UlNode "node list"
  | OlNode "node list"
  | LiNode "node list"
  | ColorNode string "node list"
  | FontSizeNode int "node list"
  | TextNode string
  | ImageNode "string option" html
  | LatexNode string
  | CodeNode string string
  | VideoCardNode int
  | ArticleCardNode int
  | BangumiCardNode int
  | MusicCardNode int
  | ShopCardNode int
  | ComicCardNode int
  | LiveCardNode int
  | AnchorNode string html
  | SeparatorNode

definition ARTICLE_COLOR_MAP :: "(string \<times> string) list" where
  "ARTICLE_COLOR_MAP =
    [(''default'', ''222222''),
     (''blue-01'', ''56c1fe''),
     (''lblue-01'', ''73fdea''),
     (''green-01'', ''89fa4e''),
     (''yellow-01'', ''fff359''),
     (''pink-01'', ''ff968d''),
     (''purple-01'', ''ff8cc6''),
     (''blue-02'', ''02a2ff''),
     (''lblue-02'', ''18e7cf''),
     (''green-02'', ''60d837''),
     (''yellow-02'', ''fbe231''),
     (''pink-02'', ''ff654e''),
     (''purple-02'', ''ef5fa8''),
     (''blue-03'', ''0176ba''),
     (''lblue-03'', ''068f86''),
     (''green-03'', ''1db100''),
     (''yellow-03'', ''f8ba00''),
     (''pink-03'', ''ee230d''),
     (''purple-03'', ''cb297a''),
     (''blue-04'', ''004e80''),
     (''lblue-04'', ''017c76''),
     (''green-04'', ''017001''),
     (''yellow-04'', ''ff9201''),
     (''pink-04'', ''b41700''),
     (''purple-04'', ''99195e''),
     (''gray-01'', ''d6d5d5''),
     (''gray-02'', ''929292''),
     (''gray-03'', ''5f5f5f'')]"

section \<open>Collaborators outside the module\<close>

text \<open>
  What the module takes from outside is a parameter of the model:
  \<^item> \<open>parse_link\<close>, a network call of the package, awaited for every link without contents at
    every parse. \<open>parse_link L n href\<close> is the answer to the \<open>n\<close>-th link request of the
    session. An answer is a resource and its kind, of which the model keeps the identifier
    the parser reads; \<open>Inl\<close> stands for a call that raises or whose result cannot be read.
  \<^item> \<open>get_initial_state\<close>, the page request: \<open>get_initial_state L cvid n\<close> is the answer to the
    \<open>n\<close>-th page request of the session.
  \<^item> \<open>URL_scheme L url\<close> is the value of \<open>URL(url).scheme\<close> of yarl, or the exception its
    constructor raises on an address it does not accept.
  \<^item> \<open>urllib.parse.unquote\<close> and \<open>yaml.safe_dump\<close>.
  \<^item> \<open>other_charref\<close> and \<open>lower_other\<close> stand for the tables of the standard library that are
    not written out below: the replacement \<open>html.unescape\<close> makes for a named character
    reference other than the five of \<open>entities\<close>, and \<open>str.lower\<close> on a string that is not ASCII.
\<close>

datatype resource = VIDEO int | AUDIO int | LIVE int | ARTICLE int | OTHER

datatype jvalue =
    JStr string
  | JInt int
  | JNone
  | JTag html
  | JList "jvalue list"
  | JDict "(string \<times> jvalue) list"

record payload =
  content :: "html list"      \<comment> \<open>\<open>readInfo.content\<close>, as BeautifulSoup parses it inside the \<open>div\<close>\<close>
  read_info :: "(string \<times> jvalue) list"  \<comment> \<open>the other entries of \<open>readInfo\<close>\<close>
  dyn_id_str :: string        \<comment> \<open>\<open>readInfo.dyn_id_str\<close>\<close>
  category_id :: int          \<comment> \<open>\<open>readInfo.category.id\<close>\<close>

record collaborators =
  parse_link :: "nat \<Rightarrow> string \<Rightarrow> error + resource"
  get_initial_state :: "int \<Rightarrow> nat \<Rightarrow> error + payload"
  URL_scheme :: "string \<Rightarrow> error + string"
  unquote :: "string \<Rightarrow> string"
  safe_dump :: "(string \<times> jvalue) list option \<Rightarrow> string"
  other_charref :: "string \<Rightarrow> string"
  lower_other :: "string \<Rightarrow> string"

section \<open>Library functions used by the module\<close>

definition lower_chr :: "char \<Rightarrow> char" where
  "lower_chr c =
     (let k = (of_char c :: nat) in if 65 \<le> k \<and> k \<le> 90 then char_of (k + 32) else c)"

definition lower :: "collaborators \<Rightarrow> string \<Rightarrow> string" where
  \<comment> \<open>\<open>s.lower()\<close>: on an ASCII string the capital letters are replaced one by one\<close>
  "lower L s =
     (if list_all (\<lambda>c. (of_char c :: nat) < 128) s then map lower_chr s else lower_other L s)"

definition is_hex :: "char \<Rightarrow> bool" where
  \<comment> \<open>the class \<open>[0-9a-fA-F]\<close>\<close>
  "is_hex c = (c \<in> set ''0123456789abcdefABCDEF'')"

definition hex_val :: "char \<Rightarrow> nat" where
  "hex_val c =
     (let k = (of_char c :: nat) in if k < 58 then k - 48 else if k < 71 then k - 55 else k - 87)"

definition name_char :: "string \<Rightarrow> bool" where
  \<comment> \<open>the class \<open>[^\t\n\f <&#;]\<close>\<close>
  "name_char c = (c \<notin> set [[tab], [nl], [CHR 0x0C], '' '', ''<'', ''&'', ''#'', '';''])"

definition semicolon :: "string \<Rightarrow> string" where
  \<comment> \<open>what \<open>;?\<close> matches at the start of \<open>s\<close>\<close>
  "semicolon s = (if starts_with '';'' s then '';'' else [])"

definition charref :: "string \<Rightarrow> string option" where
  \<comment> \<open>group 1 of the match of \<open>&(#[0-9]+;?|#[xX][0-9a-fA-F]+;?|[^\t\n\f <&#;]{1,32};?)\<close> at an
      ampersand followed by \<open>s\<close>, if there is a match\<close>
  "charref s =
     (let ds = takeWhile is_digit (drop 1 s);
          hs = takeWhile is_hex (drop 2 s);
          ns = concat (take 32 (takeWhile name_char (chars s)))
      in if starts_with ''#'' s \<and> ds \<noteq> [] then
           Some (''#'' @ ds @ semicolon (drop (1 + length ds) s))
         else if (starts_with ''#x'' s \<or> starts_with ''#X'' s) \<and> hs \<noteq> [] then
           Some (take 2 s @ hs @ semicolon (drop (2 + length hs) s))
         else if ns \<noteq> [] then Some (ns @ semicolon (drop (length ns) s))
         else None)"

definition entities :: "(string \<times> string) list" where
  \<comment> \<open>five entries of \<open>html.entities.html5\<close>\<close>
  "entities =
     [(''amp;'', ''&''), (''lt;'', ''<''), (''gt;'', ''>''),
      (''quot;'', [CHR 0x22]), (''apos;'', [CHR 0x27])]"

definition invalid_charrefs :: "(nat \<times> nat) list" where
  \<comment> \<open>\<open>html._invalid_charrefs\<close>: the character put for these numbers\<close>
  "invalid_charrefs =
     [(0x00, 0xFFFD), (0x0D, 0xD), (0x80, 0x20AC), (0x81, 0x81), (0x82, 0x201A), (0x83, 0x192),
      (0x84, 0x201E), (0x85, 0x2026), (0x86, 0x2020), (0x87, 0x2021), (0x88, 0x2C6),
      (0x89, 0x2030), (0x8A, 0x160), (0x8B, 0x2039), (0x8C, 0x152), (0x8D, 0x8D),
      (0x8E, 0x17D), (0x8F, 0x8F), (0x90, 0x90), (0x91, 0x2018), (0x92, 0x2019),
      (0x93, 0x201C), (0x94, 0x201D), (0x95, 0x2022), (0x96, 0x2013), (0x97, 0x2014),
      (0x98, 0x2DC), (0x99, 0x2122), (0x9A, 0x161), (0x9B, 0x203A), (0x9C, 0x153),
      (0x9D, 0x9D), (0x9E, 0x17E), (0x9F, 0x178)]"

definition invalid_codepoints :: "(nat \<times> nat) list" where
  \<comment> \<open>\<open>html._invalid_codepoints\<close>, as ranges with both ends in\<close>
  "invalid_codepoints =
     [(0x1, 0x8), (0xB, 0xB), (0xE, 0x1F), (0x7F, 0x9F), (0xFDD0, 0xFDEF), (0xFFFE, 0xFFFF),
      (0x1FFFE, 0x1FFFF), (0x2FFFE, 0x2FFFF), (0x3FFFE, 0x3FFFF), (0x4FFFE, 0x4FFFF),
      (0x5FFFE, 0x5FFFF), (0x6FFFE, 0x6FFFF), (0x7FFFE, 0x7FFFF), (0x8FFFE, 0x8FFFF),
      (0x9FFFE, 0x9FFFF), (0xAFFFE, 0xAFFFF), (0xBFFFE, 0xBFFFF), (0xCFFFE, 0xCFFFF),
      (0xDFFFE, 0xDFFFF), (0xEFFFE, 0xEFFFF), (0xFFFFE, 0xFFFFF), (0x10FFFE, 0x10FFFF)]"

definition replace_charref :: "collaborators \<Rightarrow> string \<Rightarrow> error + string" where
  \<comment> \<open>\<open>html._replace_charref\<close> on group 1 of a match. The number of a decimal reference is read
      by \<open>int\<close>, which raises ValueError for more than \<open>max_str_digits\<close> digits.\<close>
  "replace_charref L s =
     (if starts_with ''#'' s then
        (let hex = (starts_with ''#x'' s \<or> starts_with ''#X'' s);
             ds = takeWhile (\<lambda>c. c \<noteq> CHR '';'') (drop (if hex then 2 else 1) s);
             num = (if hex then foldl (\<lambda>acc c. 16 * acc + hex_val c) 0 ds else digits_val ds)
         in if \<not> hex \<and> max_str_digits < length ds then Inl ValueError
            else Inr (case map_of invalid_charrefs num of
                        Some r \<Rightarrow> utf8 r
                      | None \<Rightarrow>
                          if (0xD800 \<le> num \<and> num \<le> 0xDFFF) \<or> 0x10FFFF < num then utf8 0xFFFD
                          else if list_ex (\<lambda>(a, b). a \<le> num \<and> num \<le> b) invalid_codepoints then []
                          else utf8 num))
      else Inr (case map_of entities s of Some r \<Rightarrow> r | None \<Rightarrow> other_charref L s))"

function html_unescape :: "collaborators \<Rightarrow> string \<Rightarrow> error + string" where
  \<comment> \<open>\<open>html.unescape\<close>: one pass from the left over the matches of the pattern; the text put in
      is not looked at again, and an ampersand without a match stays\<close>
  "html_unescape L [] = Inr []"
| "html_unescape L (c # s) =
     (if c = CHR ''&'' then
        (case charref s of
           Some g \<Rightarrow>
             then_do (replace_charref L g) (\<lambda>r.
             then_do (html_unescape L (drop (length g) s)) (\<lambda>rest. Inr (r @ rest)))
         | None \<Rightarrow> then_do (html_unescape L s) (\<lambda>rest. Inr (c # rest)))
      else then_do (html_unescape L s) (\<lambda>rest. Inr (c # rest)))"
  by pat_completeness auto
termination
  by (relation "measure (\<lambda>(L, s). length s)") auto

section \<open>The parser: \<open>Article.fetch_content.parse\<close>\<close>

text \<open>
  \<open>parse\<close> is a coroutine that sends link requests. A coroutine is modelled by a function
  that takes the number of link requests sent in the session so far and gives its result (a
  value or the exception raised) together with the number of link requests sent when it ends.
\<close>

type_synonym 'a coroutine = "nat \<Rightarrow> (error + 'a) \<times> nat"

definition returns :: "'a \<Rightarrow> 'a coroutine" where
  "returns x = (\<lambda>k. (Inr x, k))"

definition raises :: "error \<Rightarrow> 'a coroutine" where
  "raises e = (\<lambda>k. (Inl e, k))"

definition now :: "error + 'a \<Rightarrow> 'a coroutine" where
  \<comment> \<open>statements that send no request\<close>
  "now r = (\<lambda>k. (r, k))"

definition await :: "'a coroutine \<Rightarrow> ('a \<Rightarrow> 'b coroutine) \<Rightarrow> 'b coroutine" where
  \<comment> \<open>a coroutine and then the statements that use its value; they are not run when it raises\<close>
  "await m f = (\<lambda>k. case m k of (Inl e, k') \<Rightarrow> (Inl e, k') | (Inr x, k') \<Rightarrow> f x k')"

definition request_link :: "collaborators \<Rightarrow> string \<Rightarrow> resource coroutine" where
  \<comment> \<open>\<open>await parse_link(href)\<close>: one more link request\<close>
  "request_link L href = (\<lambda>k. (parse_link L k href, Suc k))"

fun search_font_size :: "string \<Rightarrow> string option" where
  \<comment> \<open>\<open>re.search(r"font-size-(\d\d)", s)\<close>: group 1 of the leftmost match\<close>
  "search_font_size [] = None"
| "search_font_size (c # s) =
     (if starts_with ''font-size-'' (c # s) \<and>
         length (take 2 (chars (drop 10 (c # s)))) = 2 \<and>
         list_all (\<lambda>x. decimal x \<noteq> None) (take 2 (chars (drop 10 (c # s))))
      then Some (concat (take 2 (chars (drop 10 (c # s)))))
      else search_font_size s)"

fun search_color :: "string \<Rightarrow> string option" where
  \<comment> \<open>\<open>re.search("color-(.*);?", s)\<close>: group 1 of the leftmost match, which is greedy and
      stops only at a line break\<close>
  "search_color [] = None"
| "search_color (c # s) =
     (if starts_with ''color-'' (c # s)
      then Some (takeWhile (\<lambda>x. x \<noteq> nl) (drop 6 (c # s)))
      else search_color s)"

definition parse_p :: "(string \<times> string) list \<Rightarrow> node list coroutine \<Rightarrow> node list coroutine" where
  "parse_p attrs parsed =
     (let align =
        (case map_of attrs ''style'' of
           None \<Rightarrow> ''left''
         | Some style \<Rightarrow>
             if str_in ''text-align: center'' style then ''center''
             else if str_in ''text-align: right'' style then ''right''
             else ''left'')
      in await parsed (\<lambda>children. returns [ParagraphNode children align]))"

definition parse_span ::
  "(string \<times> string) list \<Rightarrow> string list option \<Rightarrow> string \<Rightarrow> node list coroutine
     \<Rightarrow> node list coroutine" where
  \<comment> \<open>\<open>text\<close> is \<open>e.text\<close> and \<open>parsed\<close> the coroutine \<open>parse(e)\<close>, awaited where the branch awaits it (twice
      in a span with a line-through style and a text)\<close>
  "parse_span attrs cls text parsed =
     (case map_of attrs ''style'' of
        Some style \<Rightarrow>
          await
            (if str_in ''text-decoration: line-through'' style
             then await parsed (\<lambda>children. returns [DelNode children])
             else returns [])
            (\<lambda>node_list.
               if text \<noteq> [] then await parsed (\<lambda>others. returns (node_list @ others))
               else returns node_list)
      | None \<Rightarrow>
          (case cls of
             None \<Rightarrow> returns []
           | Some [] \<Rightarrow> raises IndexError
           | Some (className # _) \<Rightarrow>
               if str_in ''font-size'' className then
                 (case search_font_size className of
                    None \<Rightarrow> raises TypeError
                  | Some d \<Rightarrow>
                      await (now (py_int d)) (\<lambda>font_size.
                      await parsed (\<lambda>children. returns [FontSizeNode font_size children])))
               else if str_in ''color'' className then
                 (case search_color className of
                    None \<Rightarrow> raises TypeError
                  | Some color_text \<Rightarrow>
                      await (now (item ARTICLE_COLOR_MAP color_text)) (\<lambda>color.
                      await parsed (\<lambda>children. returns [ColorNode color children])))
               else if text \<noteq> [] then parsed
               else returns []))"

definition card_nodes :: "string list \<Rightarrow> string \<Rightarrow> error + node list" where
  \<comment> \<open>the cards of an image that has an \<open>aid\<close> attribute, by the card keyword of its class\<close>
  "card_nodes className aid =
     (if ''video-card'' \<in> set className then
        then_do (seq_map py_int (split_on (CHR '','') aid)) (\<lambda>ids. Inr (map VideoCardNode ids))
      else if ''article-card'' \<in> set className then
        then_do (py_int aid) (\<lambda>cvid. Inr [ArticleCardNode cvid])
      else if ''fanju-card'' \<in> set className then
        then_do (py_int (drop_chars 2 aid)) (\<lambda>epid. Inr [BangumiCardNode epid])
      else if ''music-card'' \<in> set className then
        then_do (py_int (drop_chars 2 aid)) (\<lambda>auid. Inr [MusicCardNode auid])
      else if ''shop-card'' \<in> set className then
        then_do (py_int (drop_chars 2 aid)) (\<lambda>pwid. Inr [ShopCardNode pwid])
      else if ''caricature-card'' \<in> set className then
        then_do (seq_map py_int (split_on (CHR '','') aid)) (\<lambda>ids. Inr (map ComicCardNode ids))
      else if ''live-card'' \<in> set className then
        then_do (py_int aid) (\<lambda>room_id. Inr [LiveCardNode room_id])
      else Inr [])"

definition caption :: "html list \<Rightarrow> html" where
  \<comment> \<open>\<open>node.alt\<close> of the image of a figure with the contents \<open>cs\<close>: the first content item of its
      first \<open>figcaption\<close>, or the empty string the node starts with. A tag is true in a
      condition whatever its contents.\<close>
  "caption cs =
     (case find_tag ''figcaption'' cs of
        Some (Tag n a c (first # rest)) \<Rightarrow> first
      | _ \<Rightarrow> NavigableString [])"

definition figure_image :: "(string \<times> string) list \<Rightarrow> html list \<Rightarrow> error + node list" where
  \<comment> \<open>the image node of a figure: \<open>img_attrs\<close> are the attributes of its first \<open>img\<close>, \<open>cs\<close> the
      contents of the figure\<close>
  "figure_image img_attrs cs =
     then_do (item img_attrs ''data-src'') (\<lambda>url. Inr [ImageNode (Some url) (caption cs)])"

definition parse_figure :: "collaborators \<Rightarrow> string list option \<Rightarrow> html list \<Rightarrow> error + node list" where
  "parse_figure L cls cs =
     (case cls of
        None \<Rightarrow> Inr []
      | Some className \<Rightarrow>
          if ''img-box'' \<in> set className then
            (case find_tag ''img'' cs of
               Some (Tag n img_attrs (Some img_class) img_cs) \<Rightarrow>
                 then_do
                   (case map_of img_attrs ''aid'' of
                      None \<Rightarrow> Inr []
                    | Some aid \<Rightarrow> card_nodes img_class aid)
                   (\<lambda>cards.
                 then_do
                   (if ''seamless'' \<in> set img_class then figure_image img_attrs cs else Inr [])
                   (\<lambda>image.
                 Inr ((if ''cut-off'' \<in> set img_class then [SeparatorNode] else [])
                        @ cards @ image)))
             | Some (Tag n img_attrs None img_cs) \<Rightarrow> figure_image img_attrs cs
             | _ \<Rightarrow> Inr [])
          else if ''code-box'' \<in> set className then
            (case find_tag ''pre'' cs of
               Some (Tag n pre_attrs pre_class pre_cs) \<Rightarrow>
                 then_do (item pre_attrs ''data-lang'') (\<lambda>data_lang.
                 then_do (item pre_attrs ''codecontent'') (\<lambda>codecontent.
                 Inr [CodeNode (unquote L codecontent)
                        (lower L (case split_on (CHR ''@'') data_lang of w # ws \<Rightarrow> w | [] \<Rightarrow> []))]))
             | _ \<Rightarrow> Inl AttributeError)
          else Inr [])"

definition parse_a :: "collaborators \<Rightarrow> (string \<times> string) list \<Rightarrow> html list \<Rightarrow> node list coroutine" where
  \<comment> \<open>a link without contents sends a link request, after its \<open>href\<close> has been read\<close>
  "parse_a L attrs cs =
     (case cs of
        [] \<Rightarrow>
          await (now (item attrs ''href'')) (\<lambda>href.
          await (request_link L href) (\<lambda>parse_link_res.
          returns (case parse_link_res of
                     VIDEO aid \<Rightarrow> [VideoCardNode aid]
                   | AUDIO auid \<Rightarrow> [MusicCardNode auid]
                   | LIVE room_id \<Rightarrow> [LiveCardNode room_id]
                   | ARTICLE cvid \<Rightarrow> [ArticleCardNode cvid]
                   | OTHER \<Rightarrow> [])))
      | first # rest \<Rightarrow>
          now (then_do (item attrs ''href'') (\<lambda>href. Inr [AnchorNode href first])))"

definition parse_img ::
  "collaborators \<Rightarrow> (string \<times> string) list \<Rightarrow> string list option \<Rightarrow> error + node list" where
  \<comment> \<open>\<open>"latex" in None\<close> raises TypeError when the image has no class\<close>
  "parse_img L attrs cls =
     (case cls of
        None \<Rightarrow> Inl TypeError
      | Some className \<Rightarrow>
          if ''latex'' \<in> set className then
            then_do (item attrs ''alt'') (\<lambda>alt. Inr [LatexNode (unquote L alt)])
          else Inr [ImageNode (map_of attrs ''data-src'') (NavigableString [])])"

definition parse_tag ::
  "collaborators \<Rightarrow> string \<Rightarrow> (string \<times> string) list \<Rightarrow> string list option \<Rightarrow> html list
     \<Rightarrow> node list coroutine \<Rightarrow> node list coroutine" where
  \<comment> \<open>the \<open>if\<close>/\<open>elif\<close> chain on \<open>e.name\<close>; \<open>parsed\<close> is the coroutine \<open>parse(e)\<close>, awaited in the
      branches that await it. A tag of any other name adds nothing.\<close>
  "parse_tag L name attrs cls cs parsed =
     (if name = ''p'' then parse_p attrs parsed
      else if name = ''h1'' then await parsed (\<lambda>children. returns [HeadingNode children])
      else if name = ''strong'' then await parsed (\<lambda>children. returns [BoldNode children])
      else if name = ''span'' then parse_span attrs cls (get_texts cs) parsed
      else if name = ''blockquote'' then await parsed (\<lambda>children. returns [BlockquoteNode children])
      else if name = ''figure'' then now (parse_figure L cls cs)
      else if name = ''ol'' then await parsed (\<lambda>children. returns [OlNode children])
      else if name = ''li'' then await parsed (\<lambda>children. returns [LiNode children])
      else if name = ''ul'' then await parsed (\<lambda>children. returns [UlNode children])
      else if name = ''a'' then parse_a L attrs cs
      else if name = ''img'' then now (parse_img L attrs cls)
      else if name = ''div'' then parsed
      else returns [])"

fun parse_element :: "collaborators \<Rightarrow> html \<Rightarrow> node list coroutine"
  and parse :: "collaborators \<Rightarrow> html list \<Rightarrow> node list coroutine" where
  \<comment> \<open>\<open>parse L (contents of el)\<close> is \<open>parse(el)\<close>; \<open>parse_element\<close> is one turn of its loop and
      gives the nodes that turn appends to \<open>node_list\<close>\<close>
  "parse_element L (NavigableString s) = returns [TextNode s]"
| "parse_element L (Tag name attrs cls cs) = parse_tag L name attrs cls cs (parse L cs)"
| "parse L [] = returns []"
| "parse L (e # es) =
     await (parse_element L e) (\<lambda>nodes.
     await (parse L es) (\<lambda>node_list. returns (nodes @ node_list)))"

section \<open>Rendering the nodes\<close>

text \<open>
  \<open>ImageNode\<close> and \<open>CodeNode\<close> assign to their own fields while they render, so a render
  returns its result (a value or the exception raised) together with the node as the call
  leaves it. A call of \<open>URL\<close> or of \<open>html.unescape\<close> that raises leaves the node as it was;
  \<open>URL(None)\<close>, for an image without address, raises TypeError. A list comprehension over the children renders them in order and stops at the
  first exception; the children rendered so far keep their assignments.
\<close>

definition special_chars :: "char list" where
  "special_chars =
     [backslash, CHR ''*'', CHR ''$'', CHR ''<'', CHR ''>'', CHR ''|'', CHR ''~'', CHR ''_'']"

definition TextNode_markdown :: "string \<Rightarrow> string" where
  "TextNode_markdown text =
     (let txt = str_replace [tab] '' '' text;
          txt = str_replace '' '' ''&emsp;'' txt;
          txt = str_replace nbsp ''&emsp;'' txt
      in foldl (\<lambda>txt c. str_replace [c] [backslash, c] txt) txt special_chars)"

definition card :: "string \<Rightarrow> string \<Rightarrow> int \<Rightarrow> string" where
  \<comment> \<open>the link a card prints: \<open>[label id](link id)\<close> and a blank line\<close>
  "card label link ident =
     ''['' @ label @ str_of_int ident @ '']('' @ link @ str_of_int ident @ '')'' @ [nl, nl]"

definition escape_bracket :: "html \<Rightarrow> error + string" where
  \<comment> \<open>\<open>x.replace("[", "\\[")\<close> on the first content item of an element, as the f-string prints
      it. On a tag the attribute \<open>replace\<close> is a search for a tag of that name below it: when
      there is none the call of its result raises TypeError, and when there is one the call is
      a search for the tags of the name \<open>[\<close>, which finds nothing (the HTML parser builds no
      tag of that name) and is printed as an empty list.\<close>
  "escape_bracket x =
     (case x of
        NavigableString t \<Rightarrow> Inr (str_replace ''['' [backslash, CHR ''[''] t)
      | Tag n a c cs \<Rightarrow> (case find_tag ''replace'' cs of None \<Rightarrow> Inl TypeError | Some t \<Rightarrow> Inr ''[]''))"

definition with_scheme :: "string \<Rightarrow> string \<Rightarrow> string" where
  \<comment> \<open>the value of \<open>self.url\<close> after \<open>if URL(self.url).scheme == "": self.url = "https:" + self.url\<close>,
      for the scheme that \<open>URL\<close> has read\<close>
  "with_scheme scheme url = (if scheme = [] then ''https:'' @ url else url)"

fun enumerate_from :: "nat \<Rightarrow> 'a list \<Rightarrow> (nat \<times> 'a) list" where
  "enumerate_from i [] = []"
| "enumerate_from i (x # xs) = (i, x) # enumerate_from (Suc i) xs"

fun markdown :: "collaborators \<Rightarrow> node \<Rightarrow> (error + string) \<times> node"
  and markdown_all :: "collaborators \<Rightarrow> node list \<Rightarrow> (error + string list) \<times> node list" where
  "markdown L (ParagraphNode children align) =
     (case markdown_all L children of (r, children') \<Rightarrow>
        (then_do r (\<lambda>ts. Inr (concat ts @ [nl, nl])), ParagraphNode children' align))"
| "markdown L (HeadingNode children) =
     (case markdown_all L children of (r, children') \<Rightarrow>
        (then_do r (\<lambda>ts. let text = concat ts in
           Inr (if text = [] then [] else ''## '' @ text @ [nl, nl])),
         HeadingNode children'))"
| "markdown L (BlockquoteNode children) =
     (case markdown_all L children of (r, children') \<Rightarrow>
        (then_do r (\<lambda>ts. let t = concat ts in
           Inr (join [nl] (map (\<lambda>line. ''> '' @ line) (split_on nl t)) @ [nl, nl])),
         BlockquoteNode children'))"
| "markdown L (ItalicNode children) =
     (case markdown_all L children of (r, children') \<Rightarrow>
        (then_do r (\<lambda>ts. let text = concat ts in
           Inr (if text = [] then [] else '' *'' @ text @ ''* '')),
         ItalicNode children'))"
| "markdown L (BoldNode children) =
     (case markdown_all L children of (r, children') \<Rightarrow>
        (then_do r (\<lambda>ts. let t = concat ts in
           Inr (if t = [] then [] else '' **'' @ rstrip (lstrip t) @ ''** '')),
         BoldNode children'))"
| "markdown L (DelNode children) =
     (case markdown_all L children of (r, children') \<Rightarrow>
        (then_do r (\<lambda>ts. let text = concat ts in
           Inr (if text = [] then [] else '' ~~'' @ text @ ''~~ '')),
         DelNode children'))"
| "markdown L (UnderlineNode children) =
     (case markdown_all L children of (r, children') \<Rightarrow>
        (then_do r (\<lambda>ts. let text = concat ts in
           Inr (if text = [] then []
                else '' $'' @ [backslash] @ ''underline{'' @ text @ ''}$ '')),
         UnderlineNode children'))"
| "markdown L (UlNode children) =
     (case markdown_all L children of (r, children') \<Rightarrow>
        (then_do r (\<lambda>ts. Inr (join [nl] (map (\<lambda>t. ''- '' @ t) ts))), UlNode children'))"
| "markdown L (OlNode children) =
     (case markdown_all L children of (r, children') \<Rightarrow>
        (then_do r (\<lambda>ts.
           Inr (join [nl] (map (\<lambda>(i, t). str_of_nat (i + 1) @ ''. '' @ t) (enumerate_from 0 ts)))),
         OlNode children'))"
| "markdown L (LiNode children) =
     (case markdown_all L children of (r, children') \<Rightarrow>
        (then_do r (\<lambda>ts. Inr (concat ts)), LiNode children'))"
| "markdown L (ColorNode color children) =
     (case markdown_all L children of (r, children') \<Rightarrow>
        (then_do r (\<lambda>ts. Inr (concat ts)), ColorNode color children'))"
| "markdown L (FontSizeNode font_size children) =
     (case markdown_all L children of (r, children') \<Rightarrow>
        (then_do r (\<lambda>ts. Inr (concat ts)), FontSizeNode font_size children'))"
| "markdown L (TextNode text) = (Inr (TextNode_markdown text), TextNode text)"
| "markdown L (ImageNode None alt) = (Inl TypeError, ImageNode None alt)"
| "markdown L (ImageNode (Some url) alt) =
     (case URL_scheme L url of
        Inl e \<Rightarrow> (Inl e, ImageNode (Some url) alt)
      | Inr scheme \<Rightarrow>
          (then_do (escape_bracket alt) (\<lambda>alt'.
             Inr (''!['' @ alt' @ '']('' @ with_scheme scheme url @ '')'' @ [nl, nl])),
           ImageNode (Some (with_scheme scheme url)) alt))"
| "markdown L (LatexNode code) =
     (Inr (if nl \<in> set code then ''$$'' @ [nl] @ code @ [nl] @ ''$$'' else ''$'' @ code @ ''$''),
      LatexNode code)"
| "markdown L (CodeNode code lang) =
     (case html_unescape L code of
        Inl e \<Rightarrow> (Inl e, CodeNode code lang)
      | Inr code' \<Rightarrow>
          (Inr (''```'' @ lang @ [nl] @ code' @ [nl] @ ''```'' @ [nl, nl]), CodeNode code' lang))"
| "markdown L (VideoCardNode aid) =
     (Inr (card [CHR 0xE8, CHR 0xA7, CHR 0x86, CHR 0xE9, CHR 0xA2, CHR 0x91, CHR 0x20, CHR 0x61, CHR 0x76]
             ''https://www.bilibili.com/av'' aid),
      VideoCardNode aid)"
| "markdown L (ArticleCardNode cvid) =
     (Inr (card [CHR 0xE6, CHR 0x96, CHR 0x87, CHR 0xE7, CHR 0xAB, CHR 0xA0, CHR 0x20, CHR 0x63, CHR 0x76]
             ''https://www.bilibili.com/read/cv'' cvid),
      ArticleCardNode cvid)"
| "markdown L (BangumiCardNode epid) =
     (Inr (card [CHR 0xE7, CHR 0x95, CHR 0xAA, CHR 0xE5, CHR 0x89, CHR 0xA7, CHR 0x20, CHR 0x65, CHR 0x70]
             ''https://www.bilibili.com/bangumi/play/ep'' epid),
      BangumiCardNode epid)"
| "markdown L (MusicCardNode auid) =
     (Inr (card [CHR 0xE9, CHR 0x9F, CHR 0xB3, CHR 0xE4, CHR 0xB9, CHR 0x90, CHR 0x20, CHR 0x61, CHR 0x75]
             ''https://www.bilibili.com/audio/au'' auid),
      MusicCardNode auid)"
| "markdown L (ShopCardNode pwid) =
     (Inr (card [CHR 0xE4, CHR 0xBC, CHR 0x9A, CHR 0xE5, CHR 0x91, CHR 0x98, CHR 0xE8, CHR 0xB4, CHR 0xAD, CHR 0x20]
             ''https://show.bilibili.com/platform/detail.html?id='' pwid),
      ShopCardNode pwid)"
| "markdown L (ComicCardNode mcid) =
     (Inr (card [CHR 0xE6, CHR 0xBC, CHR 0xAB, CHR 0xE7, CHR 0x94, CHR 0xBB, CHR 0x20, CHR 0x6D, CHR 0x63]
             ''https://manga.bilibili.com/m/detail/mc'' mcid),
      ComicCardNode mcid)"
| "markdown L (LiveCardNode room_id) =
     (Inr (card [CHR 0xE7, CHR 0x9B, CHR 0xB4, CHR 0xE6, CHR 0x92, CHR 0xAD, CHR 0x20]
             ''https://live.bilibili.com/'' room_id),
      LiveCardNode room_id)"
| "markdown L (AnchorNode url text) =
     (then_do (escape_bracket text) (\<lambda>text'. Inr (''['' @ text' @ '']('' @ url @ '')'')),
      AnchorNode url text)"
| "markdown L SeparatorNode = (Inr ([nl] @ ''------'' @ [nl]), SeparatorNode)"
| "markdown_all L [] = (Inr [], [])"
| "markdown_all L (n # ns) =
     (case markdown L n of
        (Inl e, n') \<Rightarrow> (Inl e, n' # ns)
      | (Inr t, n') \<Rightarrow>
          (case markdown_all L ns of (r, ns') \<Rightarrow> (then_do r (\<lambda>ts. Inr (t # ts)), n' # ns')))"

definition container :: "string \<Rightarrow> jvalue list \<Rightarrow> jvalue" where
  "container type_name js = JDict [(''type'', JStr type_name), (''children'', JList js)]"

definition as_json :: "html \<Rightarrow> jvalue" where
  \<comment> \<open>a field that holds a content item, put into the dict as it is\<close>
  "as_json x = (case x of NavigableString t \<Rightarrow> JStr t | Tag n a c cs \<Rightarrow> JTag x)"

fun json :: "collaborators \<Rightarrow> node \<Rightarrow> (error + jvalue) \<times> node"
  and json_all :: "collaborators \<Rightarrow> node list \<Rightarrow> (error + jvalue list) \<times> node list" where
  "json L (ParagraphNode children align) =
     (case json_all L children of (r, children') \<Rightarrow>
        (then_do r (\<lambda>js. Inr (container ''ParagraphNode'' js)), ParagraphNode children' align))"
| "json L (HeadingNode children) =
     (case json_all L children of (r, children') \<Rightarrow>
        (then_do r (\<lambda>js. Inr (container ''HeadingNode'' js)), HeadingNode children'))"
| "json L (BlockquoteNode children) =
     (case json_all L children of (r, children') \<Rightarrow>
        (then_do r (\<lambda>js. Inr (container ''BlockquoteNode'' js)), BlockquoteNode children'))"
| "json L (ItalicNode children) =
     (case json_all L children of (r, children') \<Rightarrow>
        (then_do r (\<lambda>js. Inr (container ''ItalicNode'' js)), ItalicNode children'))"
| "json L (BoldNode children) =
     (case json_all L children of (r, children') \<Rightarrow>
        (then_do r (\<lambda>js. Inr (container ''BoldNode'' js)), BoldNode children'))"
| "json L (DelNode children) =
     (case json_all L children of (r, children') \<Rightarrow>
        (then_do r (\<lambda>js. Inr (container ''DelNode'' js)), DelNode children'))"
| "json L (UnderlineNode children) =
     (case json_all L children of (r, children') \<Rightarrow>
        (then_do r (\<lambda>js. Inr (container ''UnderlineNode'' js)), UnderlineNode children'))"
| "json L (UlNode children) =
     (case json_all L children of (r, children') \<Rightarrow>
        (then_do r (\<lambda>js. Inr (container ''UlNode'' js)), UlNode children'))"
| "json L (OlNode children) =
     (case json_all L children of (r, children') \<Rightarrow>
        (then_do r (\<lambda>js. Inr (container ''OlNode'' js)), OlNode children'))"
| "json L (LiNode children) =
     (case json_all L children of (r, children') \<Rightarrow>
        (then_do r (\<lambda>js. Inr (container ''LiNode'' js)), LiNode children'))"
| "json L (ColorNode color children) =
     (case json_all L children of (r, children') \<Rightarrow>
        (then_do r (\<lambda>js. Inr (JDict [(''type'', JStr ''ColorNode''), (''color'', JStr color),
                                       (''children'', JList js)])),
         ColorNode color children'))"
| "json L (FontSizeNode font_size children) =
     (case json_all L children of (r, children') \<Rightarrow>
        (then_do r (\<lambda>js. Inr (JDict [(''type'', JStr ''FontSizeNode''), (''size'', JInt font_size),
                                       (''children'', JList js)])),
         FontSizeNode font_size children'))"
| "json L (TextNode text) =
     (Inr (JDict [(''type'', JStr ''TextNode''), (''text'', JStr text)]), TextNode text)"
| "json L (ImageNode None alt) = (Inl TypeError, ImageNode None alt)"
| "json L (ImageNode (Some url) alt) =
     (case URL_scheme L url of
        Inl e \<Rightarrow> (Inl e, ImageNode (Some url) alt)
      | Inr scheme \<Rightarrow>
          (Inr (JDict [(''type'', JStr ''ImageNode''), (''url'', JStr (with_scheme scheme url)),
                       (''alt'', as_json alt)]),
           ImageNode (Some (with_scheme scheme url)) alt))"
| "json L (LatexNode code) =
     (Inr (JDict [(''type'', JStr ''LatexNode''), (''code'', JStr code)]), LatexNode code)"
| "json L (CodeNode code lang) =
     (case html_unescape L code of
        Inl e \<Rightarrow> (Inl e, CodeNode code lang)
      | Inr code' \<Rightarrow>
          (Inr (JDict [(''type'', JStr ''CodeNode''), (''code'', JStr code'), (''lang'', JStr lang)]),
           CodeNode code' lang))"
| "json L (VideoCardNode aid) =
     (Inr (JDict [(''type'', JStr ''VideoCardNode''), (''aid'', JInt aid)]), VideoCardNode aid)"
| "json L (ArticleCardNode cvid) =
     (Inr (JDict [(''type'', JStr ''ArticleCardNode''), (''cvid'', JInt cvid)]),
      ArticleCardNode cvid)"
| "json L (BangumiCardNode epid) =
     (Inr (JDict [(''type'', JStr ''BangumiCardNode''), (''epid'', JInt epid)]),
      BangumiCardNode epid)"
| "json L (MusicCardNode auid) =
     (Inr (JDict [(''type'', JStr ''MusicCardNode''), (''auid'', JInt auid)]), MusicCardNode auid)"
| "json L (ShopCardNode pwid) =
     (Inr (JDict [(''type'', JStr ''ShopCardNode''), (''pwid'', JInt pwid)]), ShopCardNode pwid)"
| "json L (ComicCardNode mcid) =
     (Inr (JDict [(''type'', JStr ''ComicCardNode''), (''mcid'', JInt mcid)]), ComicCardNode mcid)"
| "json L (LiveCardNode room_id) =
     (Inr (JDict [(''type'', JStr ''LiveCardNode''), (''room_id'', JInt room_id)]),
      LiveCardNode room_id)"
| "json L (AnchorNode url text) =
     (Inr (JDict [(''type'', JStr ''AnchorNode''), (''url'', JStr url), (''text'', as_json text)]),
      AnchorNode url text)"
| "json L SeparatorNode = (Inr (JDict [(''type'', JStr ''SeparatorNode'')]), SeparatorNode)"
| "json_all L [] = (Inr [], [])"
| "json_all L (n # ns) =
     (case json L n of
        (Inl e, n') \<Rightarrow> (Inl e, n' # ns)
      | (Inr j, n') \<Rightarrow>
          (case json_all L ns of (r, ns') \<Rightarrow> (then_do r (\<lambda>js. Inr (j # js)), n' # ns')))"

section \<open>The article\<close>

text \<open>
  The fields of \<open>Article\<close> that the parser and the renders use. \<open>has_parsed\<close> is \<open>False\<close> and
  \<open>get_all_data\<close> is \<open>None\<close> in a new article. \<open>world\<close> is the state outside the article: the
  numbers of page requests and of link requests sent so far, and the dicts of \<open>cache_pool\<close>.
\<close>

record article =
  children :: "node list"
  meta :: "(string \<times> jvalue) list option"
  cvid :: int
  has_parsed :: bool
  get_all_data :: "payload option"

record world =
  requests :: nat
  link_requests :: nat
  article2dynamic :: "int \<Rightarrow> string option"
  dynamic2article :: "string \<Rightarrow> int option"
  dynamic_is_article :: "string \<Rightarrow> bool option"
  dynamic_is_opus :: "string \<Rightarrow> bool option"
  article_is_note :: "int \<Rightarrow> bool option"

definition Article :: "int \<Rightarrow> article" where
  \<comment> \<open>\<open>Article.__init__\<close>\<close>
  "Article c = \<lparr>children = [], meta = None, cvid = c, has_parsed = False, get_all_data = None\<rparr>"

fun markdown_loop :: "collaborators \<Rightarrow> string \<Rightarrow> node list \<Rightarrow> string \<times> node list" where
  \<comment> \<open>the loop of \<open>Article.markdown\<close>: the text \<open>acc\<close> (the variable \<open>content\<close>) grows by the
      text of each child whose render returns, and a child whose render raises is passed over\<close>
  "markdown_loop L acc [] = (acc, [])"
| "markdown_loop L acc (n # ns) =
     (case markdown L n of
        (Inl e, n') \<Rightarrow> (case markdown_loop L acc ns of (c, ns') \<Rightarrow> (c, n' # ns'))
      | (Inr markdown_text, n') \<Rightarrow>
          (case markdown_loop L (acc @ markdown_text) ns of (c, ns') \<Rightarrow> (c, n' # ns')))"

definition Article_markdown :: "collaborators \<Rightarrow> article \<Rightarrow> (error + string) \<times> article" where
  "Article_markdown L a =
     (if \<not> has_parsed a then (Inl ApiException, a)
      else (case markdown_loop L [] (children a) of (body, children') \<Rightarrow>
              (Inr (''---'' @ [nl] @ safe_dump L (meta a) @ [nl] @ ''---'' @ [nl, nl] @ body),
               a\<lparr>children := children'\<rparr>)))"

definition Article_json :: "collaborators \<Rightarrow> article \<Rightarrow> (error + jvalue) \<times> article" where
  "Article_json L a =
     (if \<not> has_parsed a then (Inl ApiException, a)
      else (case json_all L (children a) of (r, children') \<Rightarrow>
              (then_do r (\<lambda>js.
                 Inr (JDict [(''type'', JStr ''Article''),
                             (''meta'', (case meta a of None \<Rightarrow> JNone | Some m \<Rightarrow> JDict m)),
                             (''children'', JList js)])),
               a\<lparr>children := children'\<rparr>)))"

definition get_all ::
  "collaborators \<Rightarrow> article \<times> world \<Rightarrow> (error + payload) \<times> article \<times> world" where
  \<comment> \<open>the page is requested only while no payload is stored; a request that raises stores
      nothing\<close>
  "get_all L s =
     (case s of (a, w) \<Rightarrow>
        (case get_all_data a of
           Some d \<Rightarrow> (Inr d, a, w)
         | None \<Rightarrow>
             (case get_initial_state L (cvid a) (requests w) of
                Inl e \<Rightarrow> (Inl e, a, w\<lparr>requests := Suc (requests w)\<rparr>)
              | Inr d \<Rightarrow>
                  (Inr d, a\<lparr>get_all_data := Some d\<rparr>,
                   w\<lparr>requests := Suc (requests w),
                     article2dynamic := (article2dynamic w)(cvid a \<mapsto> dyn_id_str d),
                     dynamic2article := (dynamic2article w)(dyn_id_str d \<mapsto> cvid a),
                     dynamic_is_article := (dynamic_is_article w)(dyn_id_str d \<mapsto> True),
                     dynamic_is_opus := (dynamic_is_opus w)(dyn_id_str d \<mapsto> True),
                     article_is_note :=
                       (article_is_note w)(cvid a \<mapsto> category_id d \<in> set [41, 42])\<rparr>))))"

definition fetch_content ::
  "collaborators \<Rightarrow> article \<times> world \<Rightarrow> (error + unit) \<times> article \<times> world" where
  \<comment> \<open>the metadata is stored before the content is parsed; the nodes and the flag are
      stored only when the parse returns. There is no test of \<open>has_parsed\<close>: every call parses,
      and sends the link requests of the content from the number the session has reached.\<close>
  "fetch_content L s =
     (case get_all L s of
        (Inl e, a, w) \<Rightarrow> (Inl e, a, w)
      | (Inr resp, a, w) \<Rightarrow>
          (case parse L (content resp) (link_requests w) of
             (Inl e, k) \<Rightarrow> (Inl e, a\<lparr>meta := Some (read_info resp)\<rparr>, w\<lparr>link_requests := k\<rparr>)
           | (Inr node_list, k) \<Rightarrow>
               (Inr (), a\<lparr>meta := Some (read_info resp), children := node_list,
                          has_parsed := True\<rparr>, w\<lparr>link_requests := k\<rparr>)))"

section \<open>Definitions used to state the properties\<close>

definition known_addresses :: "(string \<times> string) list" where
  \<comment> \<open>the addresses of the worked examples, each with the scheme that \<open>URL\<close> reads from it\<close>
  "known_addresses =
     [(''//example.com/x.png'', []), (''https://example.com/x.png'', ''https''),
      (''//i0.hdslb.com/a.png'', []), (''https://i0.hdslb.com/a.png'', ''https'')]"

definition offline :: collaborators where
  \<comment> \<open>collaborators for the worked examples: every link resolves to an unsupported resource,
      the page request fails, the only addresses are those of \<open>known_addresses\<close>, and the
      strings of the examples hold no percent escape, no other character reference and no
      letter outside ASCII\<close>
  "offline =
     \<lparr>parse_link = (\<lambda>n href. Inr OTHER),
      get_initial_state = (\<lambda>c n. Inl (ExternalError ''offline'')),
      URL_scheme = (\<lambda>url. case map_of known_addresses url of
                            Some scheme \<Rightarrow> Inr scheme
                          | None \<Rightarrow> Inl (ExternalError ''address'')),
      unquote = (\<lambda>s. s),
      safe_dump = (\<lambda>m. ''{}''),
      other_charref = (\<lambda>s. CHR ''&'' # s),
      lower_other = (\<lambda>s. s)\<rparr>"

definition serving :: "payload \<Rightarrow> collaborators" where
  \<comment> \<open>as \<open>offline\<close>, but the page request returns the given payload\<close>
  "serving p = offline\<lparr>get_initial_state := (\<lambda>c n. Inr p)\<rparr>"

definition fresh :: world where
  \<comment> \<open>no request sent, empty caches\<close>
  "fresh =
     \<lparr>requests = 0, link_requests = 0, article2dynamic = Map.empty,
      dynamic2article = Map.empty, dynamic_is_article = Map.empty, dynamic_is_opus = Map.empty,
      article_is_note = Map.empty\<rparr>"

definition code_page :: payload where
  \<comment> \<open>an article whose content is one code block; its source text is \<open>&amp;lt;\<close>\<close>
  "code_page =
     \<lparr>content =
        [Tag ''figure'' [] (Some [''code-box''])
           [Tag ''pre'' [(''data-lang'', ''html''), (''codecontent'', ''&amp;lt;'')] None []]],
      read_info = [(''title'', JStr ''t'')], dyn_id_str = ''7'', category_id = 0\<rparr>"

definition image_page :: payload where
  \<comment> \<open>an article whose content is one image with a protocol-relative address\<close>
  "image_page =
     \<lparr>content = [Tag ''img'' [(''data-src'', ''//i0.hdslb.com/a.png'')] (Some []) []],
      read_info = [(''title'', JStr ''t'')], dyn_id_str = ''7'', category_id = 0\<rparr>"

definition link_page :: payload where
  \<comment> \<open>an article whose content is one link without contents\<close>
  "link_page =
     \<lparr>content = [Tag ''a'' [(''href'', ''https://b23.tv/x'')] None []],
      read_info = [(''title'', JStr ''t'')], dyn_id_str = ''7'', category_id = 0\<rparr>"

definition link_service_lost :: collaborators where
  \<comment> \<open>the page request returns \<open>link_page\<close>; the first link request of the session resolves to
      the video 1, and every later one times out\<close>
  "link_service_lost =
     (serving link_page)
       \<lparr>parse_link := (\<lambda>n href. if n = 0 then Inr (VIDEO 1) else Inl (ExternalError ''timeout''))\<rparr>"

definition link_article_parsed :: article where
  \<comment> \<open>the article of \<open>link_page\<close> after the first \<open>fetch_content\<close>\<close>
  "link_article_parsed =
     \<lparr>children = [VideoCardNode 1], meta = Some [(''title'', JStr ''t'')], cvid = 1,
      has_parsed = True, get_all_data = Some link_page\<rparr>"

definition world_after_link_fetch :: world where
  \<comment> \<open>the world after that call: one page request and one link request sent\<close>
  "world_after_link_fetch =
     \<lparr>requests = 1, link_requests = 1, article2dynamic = [1 \<mapsto> ''7''],
      dynamic2article = [''7'' \<mapsto> 1], dynamic_is_article = [''7'' \<mapsto> True],
      dynamic_is_opus = [''7'' \<mapsto> True], article_is_note = [1 \<mapsto> False]\<rparr>"

definition code_article_parsed :: article where
  \<comment> \<open>the article of \<open>code_page\<close> after \<open>fetch_content\<close>\<close>
  "code_article_parsed = fst (snd (fetch_content (serving code_page) (Article 1, fresh)))"

definition world_after_fetch :: world where
  \<comment> \<open>the world after the first \<open>fetch_content\<close> of the article of \<open>image_page\<close>\<close>
  "world_after_fetch = snd (snd (fetch_content (serving image_page) (Article 1, fresh)))"

definition image_article_parsed :: article where
  \<comment> \<open>the article of \<open>image_page\<close> after the first \<open>fetch_content\<close>\<close>
  "image_article_parsed = fst (snd (fetch_content (serving image_page) (Article 1, fresh)))"

definition image_article_rendered :: article where
  \<comment> \<open>the same article after a call of \<open>json()\<close>\<close>
  "image_article_rendered = snd (Article_json (serving image_page) image_article_parsed)"

definition mixed_article :: article where
  \<comment> \<open>a parsed article with two text nodes and, between them, an image without address and a
      link whose text is a tag: the markdown render of these two raises\<close>
  "mixed_article =
     \<lparr>children = [TextNode ''a'', ImageNode None (NavigableString []),
                  AnchorNode ''u'' (Tag ''b'' [] None [NavigableString ''t'']), TextNode ''b''],
      meta = Some [], cvid = 1, has_parsed = True, get_all_data = None\<rparr>"

definition captioned_figure :: html where
  \<comment> \<open>a figure with an image and a caption whose first content item is a tag\<close>
  "captioned_figure =
     Tag ''figure'' [] (Some [''img-box''])
       [Tag ''img'' [(''data-src'', ''//example.com/x.png'')] None [],
        Tag ''figcaption'' [] None [Tag ''b'' [] None [NavigableString ''cap'']]]"

fun settled :: "collaborators \<Rightarrow> node \<Rightarrow> bool"
  and settled_all :: "collaborators \<Rightarrow> node list \<Rightarrow> bool" where
  \<comment> \<open>below the node, no code block changes when \<open>html.unescape\<close> is applied a second time, and
      \<open>URL\<close> reads a scheme from every address that got \<open>https:\<close> in front\<close>
  "settled L (ParagraphNode kids align) = settled_all L kids"
| "settled L (HeadingNode kids) = settled_all L kids"
| "settled L (BlockquoteNode kids) = settled_all L kids"
| "settled L (ItalicNode kids) = settled_all L kids"
| "settled L (BoldNode kids) = settled_all L kids"
| "settled L (DelNode kids) = settled_all L kids"
| "settled L (UnderlineNode kids) = settled_all L kids"
| "settled L (UlNode kids) = settled_all L kids"
| "settled L (OlNode kids) = settled_all L kids"
| "settled L (LiNode kids) = settled_all L kids"
| "settled L (ColorNode color kids) = settled_all L kids"
| "settled L (FontSizeNode font_size kids) = settled_all L kids"
| "settled L (CodeNode code lang) =
     (case html_unescape L code of Inl e \<Rightarrow> True | Inr code' \<Rightarrow> html_unescape L code' = Inr code')"
| "settled L (TextNode t) = True"
| "settled L (ImageNode None alt) = True"
| "settled L (ImageNode (Some url) alt) =
     (case URL_scheme L url of
        Inl e \<Rightarrow> True
      | Inr scheme \<Rightarrow>
          scheme \<noteq> [] \<or>
          (case URL_scheme L (''https:'' @ url) of Inl e \<Rightarrow> False | Inr scheme' \<Rightarrow> scheme' \<noteq> []))"
| "settled L (LatexNode code) = True"
| "settled L (VideoCardNode aid) = True"
| "settled L (ArticleCardNode i) = True"
| "settled L (BangumiCardNode epid) = True"
| "settled L (MusicCardNode auid) = True"
| "settled L (ShopCardNode pwid) = True"
| "settled L (ComicCardNode mcid) = True"
| "settled L (LiveCardNode room_id) = True"
| "settled L (AnchorNode url t) = True"
| "settled L SeparatorNode = True"
| "settled_all L [] = True"
| "settled_all L (n # ns) = (settled L n \<and> settled_all L ns)"

definition markdown_text :: "collaborators \<Rightarrow> node \<Rightarrow> string option" where
  \<comment> \<open>the text of a child whose markdown render returns; nothing for a child whose render
      raises\<close>
  "markdown_text L n = (case fst (markdown L n) of Inl e \<Rightarrow> None | Inr t \<Rightarrow> Some t)"

datatype rendering = AsMarkdown | AsJson

fun render :: "collaborators \<Rightarrow> rendering \<Rightarrow> node \<Rightarrow> (error + string + jvalue) \<times> node" where
  \<comment> \<open>one call of \<open>markdown()\<close> or of \<open>json()\<close> on a node\<close>
  "render L AsMarkdown n = (case markdown L n of (r, n') \<Rightarrow> (then_do r (\<lambda>t. Inr (Inl t)), n'))"
| "render L AsJson n = (case json L n of (r, n') \<Rightarrow> (then_do r (\<lambda>j. Inr (Inr j)), n'))"

fun render_seq ::
  "collaborators \<Rightarrow> rendering list \<Rightarrow> node \<Rightarrow> (error + string + jvalue) list \<times> node" where
  \<comment> \<open>calls of the two renders on the same node, one after the other, in the given order\<close>
  "render_seq L [] n = ([], n)"
| "render_seq L (k # ks) n =
     (case render L k n of (r, n') \<Rightarrow> (case render_seq L ks n' of (rs, n'') \<Rightarrow> (r # rs, n'')))"

definition image_shown :: "string \<Rightarrow> string \<Rightarrow> rendering \<Rightarrow> string + jvalue" where
  \<comment> \<open>what a render of an image returns when it shows the address \<open>url\<close> with the caption
      \<open>cap\<close>: the markdown image link to \<open>url\<close>, or the dict with that \<open>url\<close>\<close>
  "image_shown url cap k =
     (case k of
        AsMarkdown \<Rightarrow>
          Inl (''!['' @ str_replace ''['' [backslash, CHR ''[''] cap @ '']('' @ url @ '')'' @ [nl, nl])
      | AsJson \<Rightarrow>
          Inr (JDict [(''type'', JStr ''ImageNode''), (''url'', JStr url), (''alt'', JStr cap)]))"

text \<open>
  The text rendering contract in the words of the specification: a tab, a space and a
  non-breaking space become the marker \<open>&emsp;\<close>, each of the characters
  \<open>\ * $ < > | ~ _\<close> gets one backslash in front, and every other character stays.
\<close>

definition escape_char :: "char \<Rightarrow> string" where
  "escape_char c =
     (if c = tab \<or> c = CHR '' '' then ''&emsp;''
      else if c \<in> set special_chars then [backslash, c]
      else [c])"

fun escape_text :: "string \<Rightarrow> string" where
  "escape_text [] = []"
| "escape_text [c] = escape_char c"
| "escape_text (c # d # s) =
     (if [c, d] = nbsp then ''&emsp;'' @ escape_text s
      else escape_char c @ escape_text (d # s))"

definition escapes :: "string \<Rightarrow> string" where
  \<comment> \<open>the loop over \<open>special_chars\<close> in \<open>TextNode.markdown\<close>\<close>
  "escapes s = foldl (\<lambda>txt c. str_replace [c] [backslash, c] txt) s special_chars"

definition space_char :: "char \<Rightarrow> string" where
  \<comment> \<open>the first two replacements of \<open>TextNode.markdown\<close> on one character\<close>
  "space_char c = (if c = tab \<or> c = CHR '' '' then ''&emsp;'' else [c])"

section \<open>Rendering before the content is parsed\<close>

text \<open>
  Claim C4. On an article whose \<open>has_parsed\<close> flag is not set (a new article, or one whose
  \<open>fetch_content\<close> has not returned), \<open>markdown()\<close> raises the state error and \<open>json()\<close> raises the
  state error; neither returns a value and neither changes the article.
\<close>

theorem render_before_parse_fails:
  "\<not> has_parsed a \<Longrightarrow>
     Article_markdown L a = (Inl ApiException, a) \<and> Article_json L a = (Inl ApiException, a)"
  by (simp add: Article_markdown_def Article_json_def)

theorem render_before_parse_fails_witness:
  "\<not> has_parsed (Article 1) \<and>
   Article_markdown offline (Article 1) = (Inl ApiException, Article 1) \<and>
   Article_json offline (Article 1) = (Inl ApiException, Article 1)"
  using render_before_parse_fails [of "Article 1" offline] by (simp add: Article_def)

section \<open>Spans\<close>

lemma await_returns: "await m (\<lambda>x. returns x) = m"
  by (rule ext) (simp add: await_def returns_def split: prod.splits sum.splits)

text \<open>
  Claim C10. A \<open>span\<close> that has neither a \<open>style\<close> nor a \<open>class\<close> attribute adds no node, whatever
  its contents are (they are not parsed, so no error in them is seen and no link request of
  theirs is sent): the nodes of a sequence that starts with such a span are the nodes of the
  rest of the sequence.
\<close>

theorem bare_span_is_dropped:
  "map_of attrs ''style'' = None \<Longrightarrow>
     parse_element L (Tag ''span'' attrs None cs) k = (Inr [], k) \<and>
     parse L (Tag ''span'' attrs None cs # rest) k = parse L rest k"
  by (simp add: parse_tag_def parse_span_def returns_def await_def split: prod.splits sum.splits)

theorem bare_span_is_dropped_witness:
  "map_of [(''id'', ''s1'')] ''style'' = None \<and>
   parse_element offline
     (Tag ''span'' [(''id'', ''s1'')] None
        [NavigableString ''dropped'', Tag ''span'' [] (Some [''color-nope'']) [],
         Tag ''a'' [(''href'', ''u'')] None []]) 0 = (Inr [], 0) \<and>
   parse offline
     (Tag ''span'' [(''id'', ''s1'')] None
        [NavigableString ''dropped'', Tag ''span'' [] (Some [''color-nope'']) [],
         Tag ''a'' [(''href'', ''u'')] None []]
      # [NavigableString ''kept'']) 0 = (Inr [TextNode ''kept''], 0)"
proof -
  have h: "map_of [(''id'', ''s1'')] ''style'' = None" by simp
  have k: "parse offline [NavigableString ''kept''] 0 = (Inr [TextNode ''kept''], 0)"
    by (simp add: returns_def await_def)
  show ?thesis
    using h k bare_span_is_dropped [OF h, of offline
        "[NavigableString ''dropped'', Tag ''span'' [] (Some [''color-nope'']) [],
          Tag ''a'' [(''href'', ''u'')] None []]" 0
        "[NavigableString ''kept'']"]
    by simp
qed

lemma styled_span_is_flattened:
  "map_of attrs ''style'' = Some style \<Longrightarrow>
   \<not> str_in ''text-decoration: line-through'' style \<Longrightarrow> get_texts cs \<noteq> [] \<Longrightarrow>
     parse_element L (Tag ''span'' attrs cls cs) k = parse L cs k"
  by (simp add: parse_tag_def parse_span_def returns_def await_def split: prod.splits sum.splits)

lemma line_through_span_nodes:
  "map_of attrs ''style'' = Some style \<Longrightarrow> str_in ''text-decoration: line-through'' style \<Longrightarrow>
     parse_element L (Tag ''span'' attrs cls cs) =
       await (parse L cs) (\<lambda>nodes.
         if get_texts cs \<noteq> [] then await (parse L cs) (\<lambda>others. returns (DelNode nodes # others))
         else returns [DelNode nodes])"
  by (rule ext) (simp add: parse_tag_def parse_span_def returns_def await_def
      split: prod.splits sum.splits)

text \<open>
  Claim C3. A \<open>span\<close> whose style contains \<open>text-decoration: line-through\<close> and whose text is
  not empty does not give the \<open>DelNode\<close> alone: the test of the text follows the test of the
  style without an \<open>else\<close>, so the contents are parsed a second time and appended after the
  \<open>DelNode\<close>.
\<close>

theorem line_through_span_emits_contents_twice:
  "parse_element offline
     (Tag ''span'' [(''style'', ''text-decoration: line-through'')] None [NavigableString ''x'']) k
   = (Inr [DelNode [TextNode ''x''], TextNode ''x''], k)"
  by (simp add: parse_tag_def parse_span_def returns_def await_def starts_with_def)

section \<open>The markdown of a text node\<close>

lemma replace_char:
  "str_replace [c] new s = concat (map (\<lambda>x. if x = c then new else [x]) s)"
  by (induction s) (simp_all add: starts_with_def)

lemma replace_char_append:
  "str_replace [c] new (s @ t) = str_replace [c] new s @ str_replace [c] new t"
  by (simp add: replace_char)

lemma escapes_append: "escapes (s @ t) = escapes s @ escapes t"
  by (simp add: escapes_def special_chars_def replace_char_append)

lemma escapes_Nil: "escapes [] = []"
  by (simp add: escapes_def special_chars_def)

lemma escapes_char:
  "escapes [c] = (if c \<in> set special_chars then [backslash, c] else [c])"
  by (simp add: escapes_def special_chars_def replace_char backslash_def)

lemma escapes_emsp: "escapes ''&emsp;'' = ''&emsp;''"
  by (simp add: escapes_def special_chars_def replace_char backslash_def)

lemma concat_map_space_char:
  "concat (map (\<lambda>x. if x = CHR '' '' then ''&emsp;'' else [x])
             (concat (map (\<lambda>x. if x = tab then '' '' else [x]) s))) = concat (map space_char s)"
  by (induction s) (simp_all add: space_char_def tab_def)

lemma two_passes:
  "str_replace '' '' ''&emsp;'' (str_replace [tab] '' '' s) = concat (map space_char s)"
  by (simp only: replace_char concat_map_space_char)

lemma space_char_ne: "space_char d \<noteq> []"
  by (simp add: space_char_def)

lemma nbsp_pass_emsp: "str_replace nbsp ''&emsp;'' (''&emsp;'' @ r) = ''&emsp;'' @ str_replace nbsp ''&emsp;'' r"
  by (simp add: nbsp_def starts_with_def)

lemma nbsp_pass_other:
  "c \<noteq> CHR 0xC2 \<Longrightarrow> str_replace nbsp ''&emsp;'' (c # r) = c # str_replace nbsp ''&emsp;'' r"
  by (simp add: nbsp_def starts_with_def)

lemma nbsp_pass_lead:
  "r = [] \<or> hd r \<noteq> CHR 0xA0 \<Longrightarrow> str_replace nbsp ''&emsp;'' (c # r) = c # str_replace nbsp ''&emsp;'' r"
  by (cases r) (auto simp add: nbsp_def starts_with_def)

lemma nbsp_pass_match:
  "str_replace nbsp ''&emsp;'' (CHR 0xC2 # CHR 0xA0 # r) = ''&emsp;'' @ str_replace nbsp ''&emsp;'' r"
  by (simp add: nbsp_def starts_with_def)

lemma nbsp_pass_step:
  assumes "r = [] \<or> hd r \<noteq> CHR 0xA0 \<or> c \<noteq> CHR 0xC2"
  shows "str_replace nbsp ''&emsp;'' (space_char c @ r) = space_char c @ str_replace nbsp ''&emsp;'' r"
proof (cases "c = tab \<or> c = CHR '' ''")
  case True
  then show ?thesis using nbsp_pass_emsp by (simp add: space_char_def)
next
  case False
  then have sc: "space_char c = [c]" by (simp add: space_char_def)
  show ?thesis
  proof (cases "c = CHR 0xC2")
    case True
    with assms have "r = [] \<or> hd r \<noteq> CHR 0xA0" by simp
    from nbsp_pass_lead[OF this] sc show ?thesis by simp
  next
    case False
    from nbsp_pass_other[OF this] sc show ?thesis by simp
  qed
qed

lemma spaces_tokens:
  "escapes (str_replace nbsp ''&emsp;'' (concat (map space_char t))) = escape_text t"
proof (induction t rule: escape_text.induct)
  case 1
  show ?case by (simp add: escapes_Nil)
next
  case (2 c)
  have "str_replace nbsp ''&emsp;'' (space_char c @ []) = space_char c @ str_replace nbsp ''&emsp;'' []"
    by (rule nbsp_pass_step) simp
  then have "str_replace nbsp ''&emsp;'' (concat (map space_char [c])) = space_char c" by simp
  moreover have "escapes (space_char c) = escape_char c"
    by (simp add: space_char_def escape_char_def escapes_emsp escapes_char special_chars_def tab_def backslash_def)
  ultimately show ?case by simp
next
  case (3 c d s)
  show ?case
  proof (cases "[c, d] = nbsp")
    case True
    then have cd: "c = CHR 0xC2" "d = CHR 0xA0" by (simp_all add: nbsp_def)
    have "concat (map space_char (c # d # s)) = CHR 0xC2 # CHR 0xA0 # concat (map space_char s)"
      by (simp add: cd space_char_def tab_def)
    then have "str_replace nbsp ''&emsp;'' (concat (map space_char (c # d # s))) =
        ''&emsp;'' @ str_replace nbsp ''&emsp;'' (concat (map space_char s))"
      by (simp only: nbsp_pass_match)
    then have "escapes (str_replace nbsp ''&emsp;'' (concat (map space_char (c # d # s)))) =
        ''&emsp;'' @ escapes (str_replace nbsp ''&emsp;'' (concat (map space_char s)))"
      by (simp only: escapes_append escapes_emsp)
    with True 3(1) show ?thesis by simp
  next
    case False
    then have ne: "c \<noteq> CHR 0xC2 \<or> d \<noteq> CHR 0xA0" by (simp add: nbsp_def)
    let ?r = "concat (map space_char (d # s))"
    have hd_r: "hd ?r = hd (space_char d)" using space_char_ne[of d] by simp
    have "?r = [] \<or> hd ?r \<noteq> CHR 0xA0 \<or> c \<noteq> CHR 0xC2"
    proof (cases "c = CHR 0xC2")
      case True
      with ne have "d \<noteq> CHR 0xA0" by simp
      then have "hd (space_char d) \<noteq> CHR 0xA0" by (simp add: space_char_def)
      with hd_r show ?thesis by simp
    next
      case False then show ?thesis by simp
    qed
    from nbsp_pass_step[OF this]
    have "str_replace nbsp ''&emsp;'' (concat (map space_char (c # d # s))) =
        space_char c @ str_replace nbsp ''&emsp;'' ?r" by simp
    then have "escapes (str_replace nbsp ''&emsp;'' (concat (map space_char (c # d # s)))) =
        escapes (space_char c) @ escapes (str_replace nbsp ''&emsp;'' ?r)"
      by (simp only: escapes_append)
    moreover have "escapes (space_char c) = escape_char c"
      by (simp add: space_char_def escape_char_def escapes_emsp escapes_char special_chars_def tab_def backslash_def)
    ultimately show ?thesis using False 3(2) by simp
  qed
qed

text \<open>
  Claim C7. The markdown of a text node is its text with every tab, every space and every
  non-breaking space replaced by the marker \<open>&emsp;\<close> and every occurrence of
  \<open>\ * $ < > | ~ _\<close> preceded by exactly one backslash; the backslashes put in by the
  escaping are not escaped again, and no other character changes.
\<close>

theorem text_markdown_escapes_once: "TextNode_markdown t = escape_text t"
proof -
  have "TextNode_markdown t =
      escapes (str_replace nbsp ''&emsp;''
        (str_replace '' '' ''&emsp;'' (str_replace [tab] '' '' t)))"
    by (simp add: TextNode_markdown_def escapes_def Let_def)
  then show ?thesis by (simp only: two_passes spaces_tokens)
qed

theorem text_markdown_escapes_once_witness:
  "TextNode_markdown [CHR ''a'', CHR 0x09, CHR ''b'', CHR '' '', CHR 0xC2, CHR 0xA0, CHR ''*'',
                      CHR 0x5C, CHR ''_'', CHR ''c'']
   = ''a&emsp;b&emsp;&emsp;'' @ [CHR 0x5C, CHR ''*'', CHR 0x5C, CHR 0x5C, CHR 0x5C, CHR ''_'', CHR ''c'']"
  using text_markdown_escapes_once
    [of "[CHR ''a'', CHR 0x09, CHR ''b'', CHR '' '', CHR 0xC2, CHR 0xA0, CHR ''*'',
          CHR 0x5C, CHR ''_'', CHR ''c'']"]
  by (simp add: escape_char_def special_chars_def nbsp_def tab_def backslash_def)

section \<open>Colour spans\<close>

lemma starts_with_append: "starts_with (p @ q) s \<Longrightarrow> starts_with p s"
  unfolding starts_with_def
  by (metis append_eq_conv_conj append_take_drop_id take_take min.absorb1 length_append le_add1)

lemma search_color_str_in: "search_color s = Some name \<Longrightarrow> str_in ''color'' s"
proof (induction s)
  case Nil then show ?case by simp
next
  case (Cons c s)
  show ?case
  proof (cases "starts_with ''color-'' (c # s)")
    case True
    then have "starts_with (''color'' @ ''-'') (c # s)" by simp
    then have "starts_with ''color'' (c # s)" by (rule starts_with_append)
    then show ?thesis by simp
  next
    case False
    with Cons show ?thesis by simp
  qed
qed

text \<open>
  Claim C5, as the parser has it. The class of a \<open>span\<close> is looked at only when the span has no
  \<open>style\<close> attribute, and only its first class name counts. When that name does not contain
  \<open>font-size\<close> and contains \<open>color-\<close>, the colour name is the text after the first \<open>color-\<close>:
  a name that is not in \<open>ARTICLE_COLOR_MAP\<close> makes the parse fail at once with the KeyError
  of that name, and a name that is in the table gives one \<open>ColorNode\<close> whose colour is the
  table's hex value and whose children are the parsed contents of the span.
\<close>

theorem color_span_uses_table:
  assumes "map_of attrs ''style'' = None"
    and "\<not> str_in ''font-size'' className"
    and "search_color className = Some name"
  shows "parse_element L (Tag ''span'' attrs (Some (className # others)) cs) =
           (case map_of ARTICLE_COLOR_MAP name of
              None \<Rightarrow> raises (KeyError name)
            | Some hex \<Rightarrow> await (parse L cs) (\<lambda>nodes. returns [ColorNode hex nodes]))"
  using assms search_color_str_in [OF assms(3)]
  by (simp add: parse_tag_def parse_span_def item_def now_def await_def raises_def
      split: option.splits)

theorem color_span_uses_table_witness:
  "map_of [] ''style'' = (None :: string option) \<and>
   \<not> str_in ''font-size'' ''color-unknown-name'' \<and>
   search_color ''color-unknown-name'' = Some ''unknown-name'' \<and>
   \<not> str_in ''font-size'' ''color-blue-01'' \<and>
   search_color ''color-blue-01'' = Some ''blue-01'' \<and>
   parse_element offline (Tag ''span'' [] (Some [''color-unknown-name'']) [NavigableString ''x'']) 0
     = (Inl (KeyError ''unknown-name''), 0) \<and>
   parse_element offline (Tag ''span'' [] (Some [''color-blue-01'']) [NavigableString ''x'']) 0
     = (Inr [ColorNode ''56c1fe'' [TextNode ''x'']], 0)"
proof -
  have h0: "map_of [] ''style'' = (None :: string option)" by simp
  have h1: "\<not> str_in ''font-size'' ''color-unknown-name''" by (simp add: starts_with_def)
  have h2: "search_color ''color-unknown-name'' = Some ''unknown-name''"
    by (simp add: starts_with_def nl_def)
  have h3: "\<not> str_in ''font-size'' ''color-blue-01''" by (simp add: starts_with_def)
  have h4: "search_color ''color-blue-01'' = Some ''blue-01''"
    by (simp add: starts_with_def nl_def)
  have a: "parse_element offline (Tag ''span'' [] (Some [''color-unknown-name'']) [NavigableString ''x'']) 0
     = (Inl (KeyError ''unknown-name''), 0)"
    using color_span_uses_table [OF h0 h1 h2, of offline "[]" "[NavigableString ''x'']"]
    by (simp add: ARTICLE_COLOR_MAP_def raises_def)
  have b: "parse_element offline (Tag ''span'' [] (Some [''color-blue-01'']) [NavigableString ''x'']) 0
     = (Inr [ColorNode ''56c1fe'' [TextNode ''x'']], 0)"
    using color_span_uses_table [OF h0 h3 h4, of offline "[]" "[NavigableString ''x'']"]
    by (simp add: ARTICLE_COLOR_MAP_def returns_def await_def)
  from h0 h1 h2 h3 h4 a b show ?thesis by blast
qed

text \<open>
  Claim C5 as it is written fails for a span that also has a \<open>style\<close> attribute: its class
  is never read, so an unknown colour name raises nothing and the contents are spliced in.
\<close>

theorem styled_span_ignores_color_class:
  "map_of ARTICLE_COLOR_MAP ''unknown-name'' = None \<and>
   parse_element offline
     (Tag ''span'' [(''style'', ''font-weight: bold'')] (Some [''color-unknown-name''])
        [NavigableString ''x'']) 0
   = (Inr [TextNode ''x''], 0)"
  by (simp add: ARTICLE_COLOR_MAP_def parse_tag_def parse_span_def returns_def await_def
      starts_with_def)

section \<open>Video cards\<close>

lemma seq_map_length: "seq_map f xs = Inr ys \<Longrightarrow> length ys = length xs"
  by (induction xs arbitrary: ys) (auto split: sum.splits)

lemma py_int_100: "py_int ''100'' = Inr 100"
  by (simp add: py_int_def is_cont_def int_space_def is_space_def space_points_def decimal_def
      decimal_zeros_def lead_bits_def max_str_digits_def Let_def)

lemma py_int_200: "py_int ''200'' = Inr 200"
  by (simp add: py_int_def is_cont_def int_space_def is_space_def space_points_def decimal_def
      decimal_zeros_def lead_bits_def max_str_digits_def Let_def)

text \<open>
  Claim C9, as the parser has it. The parser looks at the first \<open>img\<close> below a \<open>figure\<close> whose
  class has \<open>img-box\<close>. When that image has a class with \<open>video-card\<close> and an \<open>aid\<close> attribute
  that splits at the commas into \<open>n\<close> numbers, and has a \<open>data-src\<close> attribute if its class
  also has \<open>seamless\<close>, the figure gives exactly \<open>n\<close> \<open>VideoCardNode\<close>s, one per number, in the
  order of the attribute; they come after a \<open>SeparatorNode\<close> when the class has \<open>cut-off\<close> and
  before the image node when it has \<open>seamless\<close>, and the figure gives nothing else.
\<close>

theorem video_cards_from_aid_list:
  assumes "''img-box'' \<in> set className"
    and "find_tag ''img'' cs = Some (Tag n img_attrs (Some img_class) img_cs)"
    and "''video-card'' \<in> set img_class"
    and "map_of img_attrs ''aid'' = Some aid"
    and "seq_map py_int (split_on (CHR '','') aid) = Inr ids"
    and "''seamless'' \<notin> set img_class \<or> map_of img_attrs ''data-src'' = Some url"
  shows "length ids = length (split_on (CHR '','') aid) \<and>
    parse_element L (Tag ''figure'' attrs (Some className) cs) k =
      (Inr ((if ''cut-off'' \<in> set img_class then [SeparatorNode] else [])
            @ map VideoCardNode ids
            @ (if ''seamless'' \<in> set img_class then [ImageNode (Some url) (caption cs)] else [])),
       k)"
  using assms seq_map_length [OF assms(5)]
  by (auto simp add: parse_tag_def parse_figure_def card_nodes_def figure_image_def item_def
      then_do_def now_def)

theorem video_cards_from_aid_list_witness:
  "''img-box'' \<in> set [''img-box''] \<and>
   find_tag ''img'' [Tag ''img'' [(''aid'', ''100,200'')] (Some [''video-card'']) []]
     = Some (Tag ''img'' [(''aid'', ''100,200'')] (Some [''video-card'']) []) \<and>
   ''video-card'' \<in> set [''video-card''] \<and>
   map_of [(''aid'', ''100,200'')] ''aid'' = Some ''100,200'' \<and>
   seq_map py_int (split_on (CHR '','') ''100,200'') = Inr [100, 200] \<and>
   ''seamless'' \<notin> set [''video-card''] \<and>
   parse_element offline
     (Tag ''figure'' [] (Some [''img-box''])
        [Tag ''img'' [(''aid'', ''100,200'')] (Some [''video-card'']) []]) 0
   = (Inr [VideoCardNode 100, VideoCardNode 200], 0)"
proof -
  have h1: "''img-box'' \<in> set [''img-box'']" by simp
  have h2: "find_tag ''img'' [Tag ''img'' [(''aid'', ''100,200'')] (Some [''video-card'']) []]
     = Some (Tag ''img'' [(''aid'', ''100,200'')] (Some [''video-card'']) [])" by simp
  have h3: "''video-card'' \<in> set [''video-card'']" by simp
  have h4: "map_of [(''aid'', ''100,200'')] ''aid'' = Some ''100,200''" by simp
  have h5: "seq_map py_int (split_on (CHR '','') ''100,200'') = Inr [100, 200]"
    by (simp add: py_int_100 py_int_200)
  have h6: "''seamless'' \<notin> set [''video-card'']" by simp
  then have h6': "''seamless'' \<notin> set [''video-card''] \<or>
      map_of [(''aid'', ''100,200'')] ''data-src'' = Some []" by simp
  have "parse_element offline
     (Tag ''figure'' [] (Some [''img-box''])
        [Tag ''img'' [(''aid'', ''100,200'')] (Some [''video-card'']) []]) 0
   = (Inr [VideoCardNode 100, VideoCardNode 200], 0)"
    using video_cards_from_aid_list [OF h1 h2 h3 h4 h5 h6', of offline "[]" 0]
    by simp
  with h1 h2 h3 h4 h5 h6 show ?thesis by blast
qed

text \<open>
  Claim C9 as it is written fails for two figures that contain an image with the class
  \<open>video-card\<close> and the \<open>aid\<close> list \<open>100,200\<close>. In the first the card image comes after another
  image: only the first image is looked at, and no card is made. In the second the class of
  the card image also has \<open>seamless\<close> and the image has no \<open>data-src\<close>: the parse raises the
  KeyError of \<open>data-src\<close>.
\<close>

theorem video_card_figures_without_cards:
  "parse_element offline
     (Tag ''figure'' [] (Some [''img-box''])
        [Tag ''img'' [(''data-src'', ''//example.com/x.png'')] None [],
         Tag ''img'' [(''aid'', ''100,200'')] (Some [''video-card'']) []]) 0
   = (Inr [ImageNode (Some ''//example.com/x.png'') (NavigableString [])], 0) \<and>
   parse_element offline
     (Tag ''figure'' [] (Some [''img-box''])
        [Tag ''img'' [(''aid'', ''100,200'')] (Some [''video-card'', ''seamless'']) []]) 0
   = (Inl (KeyError ''data-src''), 0)"
  by (simp add: parse_tag_def parse_figure_def card_nodes_def figure_image_def caption_def
      item_def then_do_def now_def py_int_100 py_int_200)

section \<open>The markdown of the document\<close>

lemma markdown_loop_text:
  "fst (markdown_loop L acc ns) = acc @ concat (List.map_filter (markdown_text L) ns)"
proof (induction ns arbitrary: acc)
  case Nil
  show ?case by simp
next
  case (Cons n ns)
  obtain r n' where m: "markdown L n = (r, n')" by (cases "markdown L n")
  show ?case
  proof (cases r)
    case (Inl e)
    obtain c ns' where l: "markdown_loop L acc ns = (c, ns')" by (cases "markdown_loop L acc ns")
    from Cons[of acc] l have "c = acc @ concat (List.map_filter (markdown_text L) ns)" by simp
    moreover from m Inl have "markdown_text L n = None" by (simp add: markdown_text_def)
    ultimately show ?thesis using m Inl l by simp
  next
    case (Inr t)
    obtain c ns' where l: "markdown_loop L (acc @ t) ns = (c, ns')"
      by (cases "markdown_loop L (acc @ t) ns")
    from Cons[of "acc @ t"] l have "c = (acc @ t) @ concat (List.map_filter (markdown_text L) ns)"
      by simp
    moreover from m Inr have "markdown_text L n = Some t" by (simp add: markdown_text_def)
    ultimately show ?thesis using m Inr l by simp
  qed
qed

text \<open>
  Claim C6. The markdown render of a parsed article returns, whatever its children do: the
  result is the front matter (the dump of the metadata between two \<open>---\<close> lines, and an empty
  line) followed by the markdown of the children whose render returns, in document order;
  a child whose render raises adds nothing.
\<close>

theorem document_markdown_skips_failing_children:
  "has_parsed a \<Longrightarrow>
   fst (Article_markdown L a) =
     Inr (''---'' @ [nl] @ safe_dump L (meta a) @ [nl] @ ''---'' @ [nl, nl]
          @ concat (List.map_filter (markdown_text L) (children a)))"
proof -
  assume p: "has_parsed a"
  obtain body cs' where l: "markdown_loop L [] (children a) = (body, cs')"
    by (cases "markdown_loop L [] (children a)")
  from markdown_loop_text[of L "[]" "children a"] l
  have "body = concat (List.map_filter (markdown_text L) (children a))" by simp
  with p l show ?thesis by (simp add: Article_markdown_def)
qed

theorem document_markdown_skips_failing_children_witness:
  "has_parsed mixed_article \<and>
   fst (markdown offline (ImageNode None (NavigableString []))) = Inl TypeError \<and>
   fst (markdown offline (AnchorNode ''u'' (Tag ''b'' [] None [NavigableString ''t'']))) = Inl TypeError \<and>
   fst (Article_markdown offline mixed_article) =
     Inr (''---'' @ [nl] @ ''{}'' @ [nl] @ ''---'' @ [nl, nl] @ ''ab'')"
proof -
  have h: "has_parsed mixed_article" by (simp add: mixed_article_def)
  have t: "TextNode_markdown ''a'' = ''a''" "TextNode_markdown ''b'' = ''b''"
    by (simp_all add: TextNode_markdown_def special_chars_def starts_with_def nbsp_def tab_def
          backslash_def)
  have "fst (Article_markdown offline mixed_article) =
     Inr (''---'' @ [nl] @ ''{}'' @ [nl] @ ''---'' @ [nl, nl] @ ''ab'')"
    using document_markdown_skips_failing_children [OF h, of offline]
    by (simp add: mixed_article_def offline_def markdown_text_def t then_do_def escape_bracket_def)
  then show ?thesis using h by (simp add: then_do_def escape_bracket_def)
qed

section \<open>The address of an image\<close>

lemma render_image:
  "URL_scheme L u = Inr scheme \<Longrightarrow>
     render L k (ImageNode (Some u) (NavigableString cap)) =
       (Inr (image_shown (with_scheme scheme u) cap k),
        ImageNode (Some (with_scheme scheme u)) (NavigableString cap))"
  by (cases k) (simp_all add: image_shown_def escape_bracket_def as_json_def then_do_def)

lemma render_seq_normal:
  "URL_scheme L v = Inr scheme \<Longrightarrow> scheme \<noteq> [] \<Longrightarrow>
     render_seq L ks (ImageNode (Some v) (NavigableString cap)) =
       (map (\<lambda>k. Inr (image_shown v cap k)) ks, ImageNode (Some v) (NavigableString cap))"
  by (induction ks) (simp_all add: render_image with_scheme_def)

text \<open>
  Claim C8, as the code has it. Take an image whose caption is a string and in whose address
  \<open>URL\<close> reads an empty scheme, and let \<open>URL\<close> read a scheme from the address with \<open>https:\<close> in
  front (as it does for \<open>//example.com/x.png\<close>). Then every call in any sequence of calls of
  the two renders returns, and shows the address with \<open>https:\<close> in front: the JSON render
  gives the dict with that \<open>url\<close>, the markdown render the image link to it, and the node keeps
  that address.
\<close>

theorem image_url_normalised_and_stable:
  assumes "URL_scheme L u = Inr []"
    and "URL_scheme L (''https:'' @ u) = Inr scheme" and "scheme \<noteq> []"
    and "ks \<noteq> []"
  shows "render_seq L ks (ImageNode (Some u) (NavigableString cap)) =
    (map (\<lambda>k. Inr (image_shown (''https:'' @ u) cap k)) ks,
     ImageNode (Some (''https:'' @ u)) (NavigableString cap))"
proof -
  define v where "v = ''https:'' @ u"
  from assms(4) obtain k ks' where ks: "ks = k # ks'" by (cases ks) auto
  have first: "render L k (ImageNode (Some u) (NavigableString cap)) =
      (Inr (image_shown v cap k), ImageNode (Some v) (NavigableString cap))"
    using render_image [OF assms(1), of k cap] by (simp add: with_scheme_def v_def)
  have later: "render_seq L ks' (ImageNode (Some v) (NavigableString cap)) =
      (map (\<lambda>k. Inr (image_shown v cap k)) ks', ImageNode (Some v) (NavigableString cap))"
    using assms(2,3) unfolding v_def by (rule render_seq_normal)
  have "render_seq L ks (ImageNode (Some u) (NavigableString cap)) =
      (map (\<lambda>k. Inr (image_shown v cap k)) ks, ImageNode (Some v) (NavigableString cap))"
    unfolding ks by (simp add: first later)
  then show ?thesis unfolding v_def .
qed

theorem image_url_normalised_and_stable_witness:
  "URL_scheme offline ''//example.com/x.png'' = Inr [] \<and>
   URL_scheme offline (''https:'' @ ''//example.com/x.png'') = Inr ''https'' \<and>
   ''https'' \<noteq> [] \<and>
   [AsJson, AsMarkdown, AsMarkdown, AsJson] \<noteq> [] \<and>
   render_seq offline [AsJson, AsMarkdown, AsMarkdown, AsJson]
     (ImageNode (Some ''//example.com/x.png'') (NavigableString ''cap'')) =
   ([Inr (Inr (JDict [(''type'', JStr ''ImageNode''), (''url'', JStr ''https://example.com/x.png''),
                      (''alt'', JStr ''cap'')])),
     Inr (Inl (''![cap](https://example.com/x.png)'' @ [nl, nl])),
     Inr (Inl (''![cap](https://example.com/x.png)'' @ [nl, nl])),
     Inr (Inr (JDict [(''type'', JStr ''ImageNode''), (''url'', JStr ''https://example.com/x.png''),
                      (''alt'', JStr ''cap'')]))],
    ImageNode (Some ''https://example.com/x.png'') (NavigableString ''cap''))"
proof -
  have h1: "URL_scheme offline ''//example.com/x.png'' = Inr []"
    by (simp add: offline_def known_addresses_def)
  have h2: "URL_scheme offline (''https:'' @ ''//example.com/x.png'') = Inr ''https''"
    by (simp add: offline_def known_addresses_def)
  have h3: "''https'' \<noteq> []" by simp
  have h4: "[AsJson, AsMarkdown, AsMarkdown, AsJson] \<noteq> []" by simp
  have "render_seq offline [AsJson, AsMarkdown, AsMarkdown, AsJson]
          (ImageNode (Some ''//example.com/x.png'') (NavigableString ''cap'')) =
        (map (\<lambda>k. Inr (image_shown (''https:'' @ ''//example.com/x.png'') ''cap'' k))
           [AsJson, AsMarkdown, AsMarkdown, AsJson],
         ImageNode (Some (''https:'' @ ''//example.com/x.png'')) (NavigableString ''cap''))"
    by (rule image_url_normalised_and_stable [OF h1 h2 h3 h4])
  also have "\<dots> =
   ([Inr (Inr (JDict [(''type'', JStr ''ImageNode''), (''url'', JStr ''https://example.com/x.png''),
                      (''alt'', JStr ''cap'')])),
     Inr (Inl (''![cap](https://example.com/x.png)'' @ [nl, nl])),
     Inr (Inl (''![cap](https://example.com/x.png)'' @ [nl, nl])),
     Inr (Inr (JDict [(''type'', JStr ''ImageNode''), (''url'', JStr ''https://example.com/x.png''),
                      (''alt'', JStr ''cap'')]))],
    ImageNode (Some ''https://example.com/x.png'') (NavigableString ''cap''))"
    by (simp add: image_shown_def starts_with_def)
  finally show ?thesis using h1 h2 h3 h4 by blast
qed

text \<open>
  Claim C8 as it is written fails for an image whose caption is a tag. The parser makes such
  a node from a figure whose caption starts with a tag; \<open>URL\<close> reads an empty scheme from its
  address, and the markdown render raises TypeError instead of showing the address.
\<close>

theorem image_with_tag_caption_raises:
  "parse offline [captioned_figure] 0 =
     (Inr [ImageNode (Some ''//example.com/x.png'') (Tag ''b'' [] None [NavigableString ''cap''])], 0) \<and>
   URL_scheme offline ''//example.com/x.png'' = Inr [] \<and>
   fst (markdown offline
          (ImageNode (Some ''//example.com/x.png'') (Tag ''b'' [] None [NavigableString ''cap''])))
     = Inl TypeError"
  by (simp add: captioned_figure_def parse_tag_def parse_figure_def figure_image_def caption_def
      item_def then_do_def now_def await_def returns_def offline_def known_addresses_def
      escape_bracket_def)

section \<open>Rendering JSON twice\<close>

lemma code_article_parsed_eq: "code_article_parsed =
  \<lparr>children = [CodeNode ''&amp;lt;'' ''html''], meta = Some [(''title'', JStr ''t'')], cvid = 1,
   has_parsed = True, get_all_data = Some code_page\<rparr>"
  by (simp add: code_article_parsed_def fetch_content_def get_all_def serving_def offline_def
      Article_def fresh_def code_page_def parse_tag_def parse_figure_def then_do_def item_def
      now_def await_def returns_def lower_def lower_chr_def)

lemma unescape_amp_lt: "html_unescape L ''&amp;lt;'' = Inr ''&lt;''"
  by (simp add: charref_def is_digit_def is_hex_def name_char_def semicolon_def starts_with_def
      is_cont_def replace_charref_def entities_def then_do_def tab_def nl_def Let_def)

lemma unescape_lt: "html_unescape L ''&lt;'' = Inr ''<''"
  by (simp add: charref_def is_digit_def is_hex_def name_char_def semicolon_def starts_with_def
      is_cont_def replace_charref_def entities_def then_do_def tab_def nl_def Let_def)

text \<open>
  Claim C1. \<open>CodeNode.json\<close> stores \<open>html.unescape(self.code)\<close> back into the node at every
  call, and \<open>html.unescape\<close> is not idempotent. For the article whose code block has the source
  text \<open>&amp;lt;\<close>, the first call of \<open>json()\<close> returns the code \<open>&lt;\<close> and the second call
  returns the code \<open><\<close>: the two results differ.
\<close>

theorem json_twice_differs_on_code:
  "fst (fetch_content (serving code_page) (Article 1, fresh)) = Inr () \<and>
   fst (Article_json (serving code_page) code_article_parsed) =
     Inr (JDict [(''type'', JStr ''Article''), (''meta'', JDict [(''title'', JStr ''t'')]),
                 (''children'', JList [JDict [(''type'', JStr ''CodeNode''), (''code'', JStr ''&lt;''),
                                             (''lang'', JStr ''html'')]])]) \<and>
   fst (Article_json (serving code_page)
          (snd (Article_json (serving code_page) code_article_parsed))) =
     Inr (JDict [(''type'', JStr ''Article''), (''meta'', JDict [(''title'', JStr ''t'')]),
                 (''children'', JList [JDict [(''type'', JStr ''CodeNode''), (''code'', JStr ''<''),
                                             (''lang'', JStr ''html'')]])])"
proof -
  have a: "fst (fetch_content (serving code_page) (Article 1, fresh)) = Inr ()"
    by (simp add: fetch_content_def get_all_def serving_def offline_def
      Article_def fresh_def code_page_def parse_tag_def parse_figure_def then_do_def item_def
      now_def await_def returns_def lower_def lower_chr_def)
  show ?thesis
    using a
    by (simp add: code_article_parsed_eq Article_json_def then_do_def unescape_amp_lt unescape_lt
        del: html_unescape.simps)
qed

section \<open>Calling \<open>fetch_content\<close> again\<close>

lemma first_fetch:
  assumes "fetch_content L (a, w) = (Inr (), a1, w1)"
  shows "\<exists>resp. get_all_data a1 = Some resp \<and> meta a1 = Some (read_info resp) \<and> has_parsed a1"
  using assms
  by (auto simp add: fetch_content_def get_all_def split: option.splits sum.splits prod.splits)

text \<open>
  Claim C2, as the code has it. After a first successful \<open>fetch_content\<close>, a second call (whatever
  the renders have stored in the nodes in between, and whatever the world is by then) sends
  no page request: the stored payload is reused. It does parse the stored payload again,
  sending the link requests of the content again from the number the session has reached.
  When that parse returns, its nodes replace the nodes of the article; when it raises, the
  call raises and the nodes stay. The metadata and the flag stay as the first call set them,
  and nothing of the world changes but the number of link requests.
\<close>

theorem second_fetch_parses_again:
  assumes "fetch_content L (a, w) = (Inr (), a1, w1)"
  shows "\<exists>resp. get_all_data a1 = Some resp \<and>
    fetch_content L (a1\<lparr>children := cs\<rparr>, w') =
      (case parse L (content resp) (link_requests w') of
         (Inl e, k) \<Rightarrow> (Inl e, a1\<lparr>children := cs\<rparr>, w'\<lparr>link_requests := k\<rparr>)
       | (Inr node_list, k) \<Rightarrow> (Inr (), a1\<lparr>children := node_list\<rparr>, w'\<lparr>link_requests := k\<rparr>))"
proof -
  from first_fetch [OF assms] obtain resp where
    f: "get_all_data a1 = Some resp" "meta a1 = Some (read_info resp)" "has_parsed a1"
    by blast
  have m: "a1\<lparr>meta := Some (read_info resp)\<rparr> = a1" using f(2) by simp
  have p: "a1\<lparr>has_parsed := True\<rparr> = a1" using f(3) by simp
  have "fetch_content L (a1\<lparr>children := cs\<rparr>, w') =
      (case parse L (content resp) (link_requests w') of
         (Inl e, k) \<Rightarrow> (Inl e, a1\<lparr>children := cs\<rparr>, w'\<lparr>link_requests := k\<rparr>)
       | (Inr node_list, k) \<Rightarrow> (Inr (), a1\<lparr>children := node_list\<rparr>, w'\<lparr>link_requests := k\<rparr>))"
    using f m p
    by (cases "parse L (content resp) (link_requests w')")
       (auto simp add: fetch_content_def get_all_def split: sum.splits)
  with f(1) show ?thesis by blast
qed

lemma first_link_fetch:
  "fetch_content link_service_lost (Article 1, fresh) =
     (Inr (), link_article_parsed, world_after_link_fetch)"
  by (simp add: fetch_content_def get_all_def link_service_lost_def serving_def offline_def
      Article_def fresh_def link_page_def link_article_parsed_def world_after_link_fetch_def
      parse_tag_def parse_a_def request_link_def item_def now_def await_def returns_def)

theorem second_fetch_parses_again_witness:
  "fetch_content link_service_lost (Article 1, fresh) =
     (Inr (), link_article_parsed, world_after_link_fetch) \<and>
   fetch_content link_service_lost (link_article_parsed, world_after_link_fetch) =
     (Inl (ExternalError ''timeout''), link_article_parsed,
      world_after_link_fetch\<lparr>link_requests := 2\<rparr>) \<and>
   requests (world_after_link_fetch\<lparr>link_requests := 2\<rparr>) = 1"
proof -
  have c: "link_article_parsed\<lparr>children := children link_article_parsed\<rparr> = link_article_parsed"
    by simp
  have d: "get_all_data link_article_parsed = Some link_page"
    by (simp add: link_article_parsed_def)
  have q: "parse link_service_lost (content link_page) (link_requests world_after_link_fetch) =
      (Inl (ExternalError ''timeout''), 2)"
    by (simp add: link_service_lost_def serving_def offline_def link_page_def
        world_after_link_fetch_def parse_tag_def parse_a_def request_link_def item_def now_def
        await_def returns_def)
  from second_fetch_parses_again [OF first_link_fetch,
      of "children link_article_parsed" world_after_link_fetch]
  have "fetch_content link_service_lost (link_article_parsed, world_after_link_fetch) =
     (Inl (ExternalError ''timeout''), link_article_parsed,
      world_after_link_fetch\<lparr>link_requests := 2\<rparr>)"
    using c d q by auto
  moreover have "requests (world_after_link_fetch\<lparr>link_requests := 2\<rparr>) = 1"
    by (simp add: world_after_link_fetch_def)
  ultimately show ?thesis using first_link_fetch by blast
qed

lemma image_article_parsed_eq: "image_article_parsed =
  \<lparr>children = [ImageNode (Some ''//i0.hdslb.com/a.png'') (NavigableString [])],
   meta = Some [(''title'', JStr ''t'')], cvid = 1,
   has_parsed = True, get_all_data = Some image_page\<rparr>"
  by (simp add: image_article_parsed_def fetch_content_def get_all_def serving_def offline_def
      Article_def fresh_def image_page_def parse_tag_def parse_img_def then_do_def
      now_def await_def returns_def)

lemma image_article_rendered_eq: "image_article_rendered =
  \<lparr>children = [ImageNode (Some ''https://i0.hdslb.com/a.png'') (NavigableString [])],
   meta = Some [(''title'', JStr ''t'')], cvid = 1,
   has_parsed = True, get_all_data = Some image_page\<rparr>"
  by (simp add: image_article_rendered_def image_article_parsed_eq Article_json_def
      with_scheme_def serving_def offline_def known_addresses_def then_do_def)

text \<open>
  Claim C2 as it is written fails: the second call does not leave the parsed nodes as they
  are. After the first call and a call of \<open>json()\<close> the image node holds the address with
  \<open>https:\<close>; the second \<open>fetch_content\<close> replaces it by a newly parsed node with the address of
  the page.
\<close>

theorem second_fetch_replaces_nodes:
  "fst (fetch_content (serving image_page) (Article 1, fresh)) = Inr () \<and>
   fst (fetch_content (serving image_page) (image_article_rendered, world_after_fetch)) = Inr () \<and>
   children image_article_rendered =
     [ImageNode (Some ''https://i0.hdslb.com/a.png'') (NavigableString [])] \<and>
   children (fst (snd (fetch_content (serving image_page)
                         (image_article_rendered, world_after_fetch)))) =
     [ImageNode (Some ''//i0.hdslb.com/a.png'') (NavigableString [])]"
  by (simp add: image_article_rendered_eq fetch_content_def get_all_def serving_def offline_def
      Article_def fresh_def image_page_def parse_tag_def parse_img_def then_do_def
      now_def await_def returns_def)

section \<open>Where rendering JSON twice agrees\<close>

text \<open>
  The second call of \<open>json()\<close> differs from the first only through a code block or through
  an address that \<open>URL\<close> does not read in the same way once \<open>https:\<close> is in front: on a tree
  without these (\<open>settled\<close>), a second render returns what the first returned (the same value
  or the same exception) and leaves the nodes as the first left them.
\<close>

lemma json_again:
  "settled L n \<longrightarrow> json L (snd (json L n)) = json L n"
  "settled_all L ns \<longrightarrow> json_all L (snd (json_all L ns)) = json_all L ns"
proof (induction L n and L ns rule: json_json_all.induct)
qed (auto simp add: with_scheme_def split: prod.splits sum.splits)

lemma Article_json_again:
  assumes "settled_all L (children a)"
  shows "Article_json L (snd (Article_json L a)) = Article_json L a"
proof (cases "has_parsed a")
  case False
  then show ?thesis by (simp add: Article_json_def)
next
  case True
  obtain r cs' where j: "json_all L (children a) = (r, cs')" by (cases "json_all L (children a)")
  from json_again(2) assms have "json_all L (snd (json_all L (children a))) = json_all L (children a)"
    by blast
  with j have "json_all L cs' = (r, cs')" by simp
  with True j show ?thesis by (simp add: Article_json_def)
qed

end
